theory Spec2Isabelle
  imports Complex_Main
begin

section \<open>Data model (database/models.py)\<close>

text \<open>
  Primary keys (UUIDs) and timestamps are natural numbers. Every table of the relational store
  that the synchronisation and chat pipeline touches is a component of one state record
  \<open>db\<close>; a service method takes the state and returns the new one next to its result.
  A nullable column is an \<open>option\<close>. Left out are the JSON metadata and the columns that no
  operation below reads or writes (\<open>vector_id\<close>, \<open>created_at\<close> and \<open>source_created_at\<close> of a
  document, the timestamps of a connector). The \<open>status\<close> of a document is always one of the
  five members of the enum: every insert goes through the ORM, which fills in the default.
\<close>

type_synonym uuid = nat
type_synonym datetime = nat

datatype DocumentStatus = PENDING | PROCESSING | CLASSIFIED | INDEXED | FAILED

datatype ConnectorType =
  GOOGLE_DRIVE | GMAIL | SLACK | NOTION | ONEDRIVE | GITHUB | WEBSCRAPER | EMAIL_FORWARDING

record document =
  doc_id :: uuid
  doc_tenant_id :: uuid
  doc_connector_id :: "uuid option"
  doc_external_id :: "string option"
  doc_title :: string
  doc_content :: "string option"
  doc_content_hash :: "string option"
  doc_source_url :: "string option"
  doc_mime_type :: "string option"
  doc_status :: DocumentStatus
  doc_classification :: "string option"
  doc_classification_confidence :: "real option"
  doc_project_id :: "uuid option"
  doc_is_indexed :: bool
  doc_updated_at :: datetime

record connector =
  conn_tenant_id :: uuid
  conn_type :: ConnectorType
  conn_name :: string
  conn_credentials :: string
  conn_is_active :: bool
  conn_last_sync_at :: "datetime option"
  conn_sync_status :: string
  conn_sync_error :: "string option"

record sync_progress =
  sp_status :: string
  sp_total_items :: int
  sp_processed_items :: int
  sp_indexed_items :: int
  sp_failed_items :: int
  sp_current_step :: "string option"
  sp_error_message :: "string option"
  sp_started_at :: "datetime option"
  sp_completed_at :: "datetime option"

record chat_message =
  msg_id :: uuid
  msg_session_id :: uuid
  msg_role :: string
  msg_content :: string
  msg_sources :: "string list option"
  msg_created_at :: datetime

record chat_session =
  cs_tenant_id :: uuid
  cs_title :: string
  cs_updated_at :: datetime

text \<open>
  The statements handed to \<^verbatim>\<open>db.execute\<close> are recorded in the order of execution, each
  with the table it addresses and its row count (rows returned, updated or deleted), so that
  "one query" and "three delete operations" are properties of the state.
\<close>

datatype stmt = Select string | Update string | Delete string

record db =
  documents :: "document list"
  connectors :: "uuid \<rightharpoonup> connector"
  progress_rows :: "uuid \<rightharpoonup> sync_progress"
  chat_sessions :: "uuid \<rightharpoonup> chat_session"
  chat_messages :: "chat_message list"
  next_uuid :: uuid
  executed :: "(stmt \<times> nat) list"

text \<open>
  \<open>connectors\<close> and \<open>chat_sessions\<close> are keyed by primary key. \<open>progress_rows\<close> is keyed by
  the connector id: \<^verbatim>\<open>start_sync\<close> adds a SyncProgress row only where the connector has
  none, so a connector has at most one.
\<close>

text \<open>
  Exceptions. Those of the database layer carry the message of the driver:
  \<open>IntegrityError\<close> and \<open>DataError\<close> come from a flush that the database refuses,
  \<open>PendingRollbackError\<close> from a statement on a session whose flush has failed and that has
  not been rolled back.
\<close>

datatype exn =
  HTTPException nat string
  | NoResultFound
  | IntegrityError string
  | DataError string
  | PendingRollbackError string
  | ValueError string
  | ZeroDivisionError
  | Exception string

text \<open>\<^verbatim>\<open>str(n)\<close> of a non-negative integer, for the f-strings.\<close>

function str_nat :: "nat \<Rightarrow> string" where
  "str_nat n =
     (if n < 10 then [''0123456789'' ! n]
      else str_nat (n div 10) @ [''0123456789'' ! (n mod 10)])"
  by pat_completeness auto
termination
  by (relation "measure id") auto

text \<open>\<^verbatim>\<open>str(e)\<close> of an exception; an HTTPException prints as "status: detail".\<close>

fun str_exn :: "exn \<Rightarrow> string" where
  "str_exn (HTTPException code detail) = str_nat code @ '': '' @ detail"
| "str_exn NoResultFound = ''No row was found when one was required''"
| "str_exn (IntegrityError m) = m"
| "str_exn (DataError m) = m"
| "str_exn (PendingRollbackError m) = m"
| "str_exn (ValueError m) = m"
| "str_exn ZeroDivisionError = ''division by zero''"
| "str_exn (Exception m) = m"

text \<open>
  The transaction of a session: after a failed flush it is rolled back inside the database
  and every further statement on the session raises until \<^verbatim>\<open>Session.rollback()\<close> is
  called.
\<close>

datatype session = Active | PendingRollback

section \<open>Statements on the documents table\<close>

definition select_documents :: "(document \<Rightarrow> bool) \<Rightarrow> db \<Rightarrow> document list \<times> db" where
  "select_documents p s =
     (let rows = filter p (documents s)
      in (rows, s\<lparr>executed := executed s @ [(Select ''documents'', length rows)]\<rparr>))"

definition update_documents ::
  "(document \<Rightarrow> bool) \<Rightarrow> (document \<Rightarrow> document) \<Rightarrow> db \<Rightarrow> nat \<times> db" where
  "update_documents p f s =
     (let rowcount = length (filter p (documents s))
      in (rowcount,
          s\<lparr>documents := map (\<lambda>d. if p d then f d else d) (documents s),
            executed := executed s @ [(Update ''documents'', rowcount)]\<rparr>))"

definition delete_documents :: "(document \<Rightarrow> bool) \<Rightarrow> db \<Rightarrow> nat \<times> db" where
  "delete_documents p s =
     (let rowcount = length (filter p (documents s))
      in (rowcount,
          s\<lparr>documents := filter (\<lambda>d. \<not> p d) (documents s),
            executed := executed s @ [(Delete ''documents'', rowcount)]\<rparr>))"

section \<open>DocumentService (services/document_service.py)\<close>

definition get_documents_by_ids :: "uuid list \<Rightarrow> uuid \<Rightarrow> db \<Rightarrow> document list \<times> db" where
  "get_documents_by_ids document_ids tenant_id s =
     (if document_ids = [] then ([], s)
      else select_documents
             (\<lambda>d. doc_id d \<in> set document_ids \<and> doc_tenant_id d = tenant_id) s)"

definition bulk_classify_documents ::
  "uuid list \<Rightarrow> string \<Rightarrow> real \<Rightarrow> datetime \<Rightarrow> db \<Rightarrow> nat \<times> db" where
  "bulk_classify_documents document_ids classification confidence now s =
     (if document_ids = [] then (0, s)
      else update_documents
             (\<lambda>d. doc_id d \<in> set document_ids)
             (\<lambda>d. d\<lparr>doc_classification := Some classification,
                     doc_classification_confidence := Some confidence,
                     doc_status := CLASSIFIED,
                     doc_updated_at := now\<rparr>) s)"

text \<open>
  The loop \<^verbatim>\<open>for i in range(0, len(document_ids), batch_size)\<close> of
  \<^verbatim>\<open>bulk_delete_documents\<close>, for a positive step.
\<close>

function bulk_delete_loop ::
  "uuid list \<Rightarrow> uuid \<Rightarrow> nat \<Rightarrow> nat \<Rightarrow> nat \<Rightarrow> db \<Rightarrow> nat \<times> db" where
  "bulk_delete_loop document_ids tenant_id batch_size i total_deleted s =
     (if 0 < batch_size \<and> i < length document_ids then
        (let batch = take batch_size (drop i document_ids);
             (rowcount, s') =
                delete_documents
                  (\<lambda>d. doc_id d \<in> set batch \<and> doc_tenant_id d = tenant_id) s
         in bulk_delete_loop document_ids tenant_id batch_size (i + batch_size)
              (total_deleted + rowcount) s')
      else (total_deleted, s))"
  by pat_completeness auto
termination
  by (relation "measure (\<lambda>(ids, t, b, i, total, s). length ids - i)") auto

text \<open>
  \<^verbatim>\<open>range\<close> raises ValueError for a step of zero and is empty for a negative one.
\<close>

definition bulk_delete_documents :: "uuid list \<Rightarrow> uuid \<Rightarrow> int \<Rightarrow> db \<Rightarrow> exn + nat \<times> db" where
  "bulk_delete_documents document_ids tenant_id batch_size s =
     (if document_ids = [] then Inr (0, s)
      else if batch_size = 0 then Inl (ValueError ''range() arg 3 must not be zero'')
      else if batch_size < 0 then Inr (0, s)
      else Inr (bulk_delete_loop document_ids tenant_id (nat batch_size) 0 0 s))"

definition bulk_assign_project :: "uuid list \<Rightarrow> uuid \<Rightarrow> datetime \<Rightarrow> db \<Rightarrow> nat \<times> db" where
  "bulk_assign_project document_ids project_id now s =
     (if document_ids = [] then (0, s)
      else update_documents
             (\<lambda>d. doc_id d \<in> set document_ids)
             (\<lambda>d. d\<lparr>doc_project_id := Some project_id, doc_updated_at := now\<rparr>) s)"

text \<open>
  \<^verbatim>\<open>find_by_external_ids\<close> returns the dictionary external id \<open>\<mapsto>\<close> document of the rows
  found; a later row replaces an earlier one with the same external id.
\<close>

definition find_by_external_ids ::
  "string list \<Rightarrow> uuid \<Rightarrow> db \<Rightarrow> (string \<rightharpoonup> document) \<times> db" where
  "find_by_external_ids external_ids connector_id s =
     (if external_ids = [] then (Map.empty, s)
      else
        (let (rows, s') =
               select_documents
                 (\<lambda>d. (case doc_external_id d of None \<Rightarrow> False
                                              | Some e \<Rightarrow> e \<in> set external_ids)
                      \<and> doc_connector_id d = Some connector_id) s
         in (foldl (\<lambda>m d. case doc_external_id d of None \<Rightarrow> m | Some e \<Rightarrow> m(e \<mapsto> d))
               Map.empty rows, s')))"

text \<open>
  The aggregating query of \<^verbatim>\<open>get_document_stats\<close>: \<open>count\<close> over the tenant's rows and
  \<open>sum\<close> of a \<open>case\<close> per status; SQL's \<open>sum\<close> over no rows is NULL, which
  \<^verbatim>\<open>row.x or 0\<close> turns into 0.
\<close>

definition sql_sum :: "int list \<Rightarrow> int option" where
  "sql_sum xs = (if xs = [] then None else Some (sum_list xs))"

definition or0 :: "int option \<Rightarrow> int" where
  "or0 v = (case v of None \<Rightarrow> 0 | Some n \<Rightarrow> if n = 0 then 0 else n)"

definition case_when :: "bool \<Rightarrow> int" where
  "case_when b = (if b then 1 else 0)"

record document_stats =
  st_total :: int
  st_pending :: int
  st_processing :: int
  st_classified :: int
  st_indexed :: int
  st_failed :: int
  st_in_vector_db :: int

definition get_document_stats :: "uuid \<Rightarrow> db \<Rightarrow> document_stats \<times> db" where
  "get_document_stats tenant_id s =
     (let rows = filter (\<lambda>d. doc_tenant_id d = tenant_id) (documents s);
          total = Some (int (length rows));
          pending = sql_sum (map (\<lambda>d. case_when (doc_status d = PENDING)) rows);
          processing = sql_sum (map (\<lambda>d. case_when (doc_status d = PROCESSING)) rows);
          classified = sql_sum (map (\<lambda>d. case_when (doc_status d = CLASSIFIED)) rows);
          indexed = sql_sum (map (\<lambda>d. case_when (doc_status d = INDEXED)) rows);
          failed = sql_sum (map (\<lambda>d. case_when (doc_status d = FAILED)) rows);
          in_vector_db = sql_sum (map (\<lambda>d. case_when (doc_is_indexed d)) rows)
      in (\<lparr>st_total = or0 total, st_pending = or0 pending, st_processing = or0 processing,
           st_classified = or0 classified, st_indexed = or0 indexed, st_failed = or0 failed,
           st_in_vector_db = or0 in_vector_db\<rparr>,
          s\<lparr>executed := executed s @ [(Select ''documents'', 1)]\<rparr>))"


section \<open>Connector routes (api/integration_routes.py)\<close>

definition select_connector :: "uuid \<Rightarrow> uuid option \<Rightarrow> db \<Rightarrow> connector option \<times> db" where
  \<comment> \<open>\<^verbatim>\<open>select(Connector).where(id == connector_id [, tenant_id == tenant])\<close>,
      \<^verbatim>\<open>scalar_one_or_none()\<close>\<close>
  "select_connector connector_id tenant s =
     (let row = (case connectors s connector_id of
                   None \<Rightarrow> None
                 | Some c \<Rightarrow> if tenant = None \<or> tenant = Some (conn_tenant_id c)
                             then Some c else None)
      in (row, s\<lparr>executed := executed s
                   @ [(Select ''connectors'', case row of None \<Rightarrow> 0 | Some _ \<Rightarrow> 1)]\<rparr>))"

definition select_progress :: "uuid \<Rightarrow> db \<Rightarrow> sync_progress option \<times> db" where
  \<comment> \<open>\<^verbatim>\<open>select(SyncProgress).where(SyncProgress.connector_id == connector_id)\<close>\<close>
  "select_progress connector_id s =
     (let row = progress_rows s connector_id
      in (row, s\<lparr>executed := executed s
                   @ [(Select ''sync_progress'', case row of None \<Rightarrow> 0 | Some _ \<Rightarrow> 1)]\<rparr>))"

record sync_task =
  task_connector_id :: uuid
  task_connector_type :: ConnectorType
  task_credentials :: string
  task_tenant_id :: uuid

text \<open>
  \<^verbatim>\<open>start_sync\<close> returns its response or the HTTPException it raises, the background task
  it has scheduled being part of the response, and the state at that moment.
\<close>

definition start_sync ::
  "uuid \<Rightarrow> uuid \<Rightarrow> datetime \<Rightarrow> db \<Rightarrow> (exn + string \<times> sync_task) \<times> db" where
  "start_sync connector_id tenant_id now s =
     (case select_connector connector_id (Some tenant_id) s of
        (None, s1) \<Rightarrow> (Inl (HTTPException 404 ''Connector not found''), s1)
      | (Some c, s1) \<Rightarrow>
          if conn_sync_status c = ''syncing''
          then (Inl (HTTPException 400 ''Sync already in progress''), s1)
          else
            (let (found, s2) = select_progress connector_id s1;
                 progress = \<lparr>sp_status = ''syncing'',
                             sp_total_items = 0,
                             sp_processed_items = 0,
                             sp_indexed_items = 0,
                             sp_failed_items = 0,
                             sp_current_step = Some ''Starting sync...'',
                             sp_error_message = None,
                             sp_started_at = Some now,
                             sp_completed_at = None\<rparr>;
                 s3 = s2\<lparr>progress_rows := (progress_rows s2)(connector_id \<mapsto> progress),
                         connectors := (connectors s2)
                            (connector_id \<mapsto> c\<lparr>conn_sync_status := ''syncing''\<rparr>)\<rparr>
             in (Inr (''Sync started'',
                      \<lparr>task_connector_id = connector_id,
                       task_connector_type = conn_type c,
                       task_credentials = conn_credentials c,
                       task_tenant_id = tenant_id\<rparr>), s3)))"

text \<open>
  Python's float operations are parameters: true division of two integers, the product of
  a float and an integer, and \<^verbatim>\<open>round(x, ndigits)\<close>. Division by zero raises.
\<close>

record float_ops =
  truediv :: "int \<Rightarrow> int \<Rightarrow> real"
  float_mul :: "real \<Rightarrow> int \<Rightarrow> real"
  round_ndigits :: "real \<Rightarrow> nat \<Rightarrow> real"

definition py_truediv :: "float_ops \<Rightarrow> int \<Rightarrow> int \<Rightarrow> exn + real" where
  "py_truediv fl a b = (if b = 0 then Inl ZeroDivisionError else Inr (truediv fl a b))"

record sync_progress_response =
  r_status :: string
  r_total_items :: int
  r_processed_items :: int
  r_indexed_items :: int
  r_failed_items :: int
  r_current_step :: "string option"
  r_error_message :: "string option"
  r_percent :: real
  r_started_at :: "datetime option"
  r_completed_at :: "datetime option"

definition get_sync_progress ::
  "float_ops \<Rightarrow> uuid \<Rightarrow> uuid \<Rightarrow> db \<Rightarrow> (exn + sync_progress_response) \<times> db" where
  "get_sync_progress fl connector_id tenant_id s =
     (case select_connector connector_id (Some tenant_id) s of
        (None, s1) \<Rightarrow> (Inl (HTTPException 404 ''Connector not found''), s1)
      | (Some c, s1) \<Rightarrow>
          (case select_progress connector_id s1 of
             (None, s2) \<Rightarrow>
               (Inr \<lparr>r_status = ''idle'', r_total_items = 0, r_processed_items = 0,
                     r_indexed_items = 0, r_failed_items = 0, r_current_step = None,
                     r_error_message = None, r_percent = 0, r_started_at = None,
                     r_completed_at = None\<rparr>, s2)
           | (Some progress, s2) \<Rightarrow>
               (case (if sp_total_items progress > 0
                      then (case py_truediv fl (sp_processed_items progress)
                                    (sp_total_items progress) of
                              Inl e \<Rightarrow> Inl e
                            | Inr q \<Rightarrow> Inr (round_ndigits fl (float_mul fl q 100) 1))
                      else Inr 0) of
                  Inl e \<Rightarrow> (Inl e, s2)
                | Inr percent \<Rightarrow>
                    (Inr \<lparr>r_status = sp_status progress,
                          r_total_items = sp_total_items progress,
                          r_processed_items = sp_processed_items progress,
                          r_indexed_items = sp_indexed_items progress,
                          r_failed_items = sp_failed_items progress,
                          r_current_step = sp_current_step progress,
                          r_error_message = sp_error_message progress,
                          r_percent = percent,
                          r_started_at = sp_started_at progress,
                          r_completed_at = sp_completed_at progress\<rparr>, s2))))"


section \<open>External collaborators\<close>

text \<open>
  The content source, the embedding and generation provider and the vector index are outside
  the repository. Each call to one of them is a parameter that returns a value or raises;
  \<^verbatim>\<open>hashlib.sha256\<close> is a parameter as well. An item of a source and a match of the index
  are dictionaries: a field is \<open>None\<close> where the key is absent. For the title and the content
  of an item, a key that is present with the value \<^verbatim>\<open>None\<close> is \<open>Some None\<close>: the default of
  \<^verbatim>\<open>item.get\<close> applies to an absent key only.
\<close>

type_synonym embedding = "real list"

record item =
  it_external_id :: "string option"
  it_title :: "string option option"
  it_content :: "string option option"
  it_source_url :: "string option"

record vector =
  vec_id :: string
  vec_values :: embedding
  vec_tenant_id :: string
  vec_title :: string
  vec_content :: string

record retrieved =
  ret_id :: string
  ret_score :: real
  ret_title :: "string option"
  ret_content :: "string option"

type_synonym connector_class = "string \<Rightarrow> exn + item list"

record env =
  import_connector :: "ConnectorType \<Rightarrow> exn + connector_class"
  compute_hash :: "string \<Rightarrow> string"
  embeddings_create :: "string list \<Rightarrow> exn + embedding list"
  index_upsert :: "vector list \<Rightarrow> string \<Rightarrow> exn + unit"
  index_query :: "embedding \<Rightarrow> nat \<Rightarrow> string \<Rightarrow> exn + retrieved list"
  chat_completion :: "(string \<times> string) list \<Rightarrow> exn + string"

text \<open>Truthiness of an optional string: absent, \<open>None\<close> and the empty string are false.\<close>

definition truthy :: "string option \<Rightarrow> bool" where
  "truthy v = (case v of None \<Rightarrow> False | Some x \<Rightarrow> x \<noteq> [])"

section \<open>Connector registry (connectors/__init__.py)\<close>

definition get_connector_class :: "env \<Rightarrow> ConnectorType \<Rightarrow> exn + connector_class option" where
  "get_connector_class ev connector_type =
     (if connector_type \<in> {GOOGLE_DRIVE, GMAIL, SLACK, NOTION, GITHUB, WEBSCRAPER}
      then (case import_connector ev connector_type of
              Inl e \<Rightarrow> Inl e
            | Inr cls \<Rightarrow> Inr (Some cls))
      else Inr None)"

section \<open>Embeddings and vector index (services/ai_service.py, services/vector_service.py)\<close>

function create_embeddings_loop ::
  "env \<Rightarrow> string list \<Rightarrow> nat \<Rightarrow> nat \<Rightarrow> embedding list \<Rightarrow> exn + embedding list" where
  "create_embeddings_loop ev texts batch_size i all_embeddings =
     (if 0 < batch_size \<and> i < length texts then
        (case embeddings_create ev (take batch_size (drop i texts)) of
           Inl e \<Rightarrow> Inl e
         | Inr batch_embeddings \<Rightarrow>
             create_embeddings_loop ev texts batch_size (i + batch_size)
               (all_embeddings @ batch_embeddings))
      else Inr all_embeddings)"
  by pat_completeness auto
termination
  by (relation "measure (\<lambda>(ev, texts, b, i, acc). length texts - i)") auto

definition create_embeddings_batch :: "env \<Rightarrow> string list \<Rightarrow> nat \<Rightarrow> exn + embedding list" where
  "create_embeddings_batch ev texts batch_size =
     (if batch_size = 0 then Inl (ValueError ''range() arg 3 must not be zero'')
      else create_embeddings_loop ev texts batch_size 0 [])"

definition create_embedding :: "env \<Rightarrow> string \<Rightarrow> exn + embedding" where
  "create_embedding ev text =
     (case embeddings_create ev [text] of
        Inl e \<Rightarrow> Inl e
      | Inr [] \<Rightarrow> Inl (Exception ''list index out of range'')
      | Inr (v # _) \<Rightarrow> Inr v)"

record index_doc =
  ix_id :: string
  ix_title :: string
  ix_content :: string

function index_upsert_loop :: "env \<Rightarrow> vector list \<Rightarrow> string \<Rightarrow> nat \<Rightarrow> nat \<Rightarrow> exn + unit" where
  "index_upsert_loop ev vectors tenant_id batch_size i =
     (if 0 < batch_size \<and> i < length vectors then
        (case index_upsert ev (take batch_size (drop i vectors)) tenant_id of
           Inl e \<Rightarrow> Inl e
         | Inr _ \<Rightarrow> index_upsert_loop ev vectors tenant_id batch_size (i + batch_size))
      else Inr ())"
  by pat_completeness auto
termination
  by (relation "measure (\<lambda>(ev, vectors, t, b, i). length vectors - i)") auto

definition upsert_documents_batch ::
  "env \<Rightarrow> index_doc list \<Rightarrow> string \<Rightarrow> nat \<Rightarrow> exn + string list" where
  "upsert_documents_batch ev docs tenant_id batch_size =
     (if docs = [] then Inr []
      else
        (case create_embeddings_batch ev (map ix_content docs) batch_size of
           Inl e \<Rightarrow> Inl e
         | Inr embeddings \<Rightarrow>
             (let pairs = zip docs embeddings;
                  ids = map (\<lambda>(doc, embedding). ix_id doc) pairs;
                  vectors = map (\<lambda>(doc, embedding).
                                   \<lparr>vec_id = ix_id doc,
                                    vec_values = embedding,
                                    vec_tenant_id = tenant_id,
                                    vec_title = ix_title doc,
                                    vec_content = take 1000 (ix_content doc)\<rparr>) pairs
              in (case index_upsert_loop ev vectors tenant_id batch_size 0 of
                    Inl e \<Rightarrow> Inl e
                  | Inr _ \<Rightarrow> Inr ids))))"

definition search :: "env \<Rightarrow> string \<Rightarrow> string \<Rightarrow> nat \<Rightarrow> exn + retrieved list" where
  "search ev query tenant_id top_k =
     (case create_embedding ev query of
        Inl e \<Rightarrow> Inl e
      | Inr query_embedding \<Rightarrow> index_query ev query_embedding top_k tenant_id)"

section \<open>Bulk creation (DocumentService.create_documents_bulk)\<close>

record document_input =
  in_title :: "string option"
  in_content :: "string option"
  in_connector_id :: "uuid option"
  in_external_id :: "string option"
  in_source_url :: "string option"
  in_mime_type :: "string option"

text \<open>
  What the database refuses at the flush: a missing title (the column is NOT NULL), a NUL
  character in a text, a value longer than its \<^verbatim>\<open>String(n)\<close> column.
\<close>

definition has_nul :: "string option \<Rightarrow> bool" where
  "has_nul v = (case v of None \<Rightarrow> False | Some x \<Rightarrow> CHR 0x00 \<in> set x)"

definition longer_than :: "nat \<Rightarrow> string option \<Rightarrow> bool" where
  "longer_than n v = (case v of None \<Rightarrow> False | Some x \<Rightarrow> n < length x)"

text \<open>
  The row of one \<^verbatim>\<open>Document(...)\<close> of the loop of \<^verbatim>\<open>create_documents_bulk\<close>, with the
  primary key the flush gives it and the column defaults (status pending, not indexed), or
  the error of its INSERT.
\<close>

definition new_row ::
  "env \<Rightarrow> uuid \<Rightarrow> datetime \<Rightarrow> uuid \<Rightarrow> document_input \<Rightarrow> exn + document" where
  "new_row ev tenant_id now n doc_data =
     (case in_title doc_data of
        None \<Rightarrow> Inl (IntegrityError ''null value in column title violates not-null constraint'')
      | Some title \<Rightarrow>
          if has_nul (Some title) \<or> has_nul (in_content doc_data)
             \<or> has_nul (in_external_id doc_data) \<or> has_nul (in_source_url doc_data)
             \<or> has_nul (in_mime_type doc_data)
          then Inl (DataError ''invalid byte sequence for encoding UTF8: 0x00'')
          else if longer_than 500 (Some title) \<or> longer_than 500 (in_external_id doc_data)
                  \<or> longer_than 2000 (in_source_url doc_data)
                  \<or> longer_than 100 (in_mime_type doc_data)
          then Inl (DataError ''value too long for type character varying'')
          else Inr
            \<lparr>doc_id = n,
             doc_tenant_id = tenant_id,
             doc_connector_id = in_connector_id doc_data,
             doc_external_id = in_external_id doc_data,
             doc_title = title,
             doc_content = in_content doc_data,
             doc_content_hash =
               (case in_content doc_data of
                  None \<Rightarrow> None
                | Some content \<Rightarrow>
                    if content \<noteq> [] then Some (compute_hash ev content) else None),
             doc_source_url = in_source_url doc_data,
             doc_mime_type = in_mime_type doc_data,
             doc_status = PENDING,
             doc_classification = None,
             doc_classification_confidence = None,
             doc_project_id = None,
             doc_is_indexed = False,
             doc_updated_at = now\<rparr>)"

fun new_documents ::
  "env \<Rightarrow> uuid \<Rightarrow> datetime \<Rightarrow> uuid \<Rightarrow> document_input list \<Rightarrow> exn + document list" where
  "new_documents ev tenant_id now n [] = Inr []"
| "new_documents ev tenant_id now n (doc_data # rest) =
     (case new_row ev tenant_id now n doc_data of
        Inl e \<Rightarrow> Inl e
      | Inr doc \<Rightarrow>
          (case new_documents ev tenant_id now (Suc n) rest of
             Inl e \<Rightarrow> Inl e
           | Inr docs \<Rightarrow> Inr (doc # docs)))"

text \<open>
  \<^verbatim>\<open>create_documents_bulk\<close> raises what the flush raises; the table is then as before.
\<close>

definition create_documents_bulk ::
  "env \<Rightarrow> uuid \<Rightarrow> document_input list \<Rightarrow> datetime \<Rightarrow> db \<Rightarrow> exn + document list \<times> db" where
  "create_documents_bulk ev tenant_id inputs now s =
     (case new_documents ev tenant_id now (next_uuid s) inputs of
        Inl e \<Rightarrow> Inl e
      | Inr docs \<Rightarrow>
          Inr (docs, s\<lparr>documents := documents s @ docs,
                       next_uuid := next_uuid s + length docs\<rparr>))"

section \<open>Background sync task (run_sync_task)\<close>

definition update_progress :: "uuid \<Rightarrow> (sync_progress \<Rightarrow> sync_progress) \<Rightarrow> db \<Rightarrow> db" where
  \<comment> \<open>an attribute assignment on the loaded SyncProgress object\<close>
  "update_progress connector_id f s =
     (case progress_rows s connector_id of
        None \<Rightarrow> s
      | Some p \<Rightarrow> s\<lparr>progress_rows := (progress_rows s)(connector_id \<mapsto> f p)\<rparr>)"

definition update_connector :: "uuid \<Rightarrow> (connector \<Rightarrow> connector) \<Rightarrow> db \<Rightarrow> db" where
  "update_connector connector_id f s =
     (case connectors s connector_id of
        None \<Rightarrow> s
      | Some c \<Rightarrow> s\<lparr>connectors := (connectors s)(connector_id \<mapsto> f c)\<rparr>)"

text \<open>The enum member as an f-string prints it (Python 3.11 and later).\<close>

definition str_connector_type :: "ConnectorType \<Rightarrow> string" where
  "str_connector_type t =
     (case t of GOOGLE_DRIVE \<Rightarrow> ''ConnectorType.GOOGLE_DRIVE'' | GMAIL \<Rightarrow> ''ConnectorType.GMAIL''
      | SLACK \<Rightarrow> ''ConnectorType.SLACK'' | NOTION \<Rightarrow> ''ConnectorType.NOTION''
      | ONEDRIVE \<Rightarrow> ''ConnectorType.ONEDRIVE'' | GITHUB \<Rightarrow> ''ConnectorType.GITHUB''
      | WEBSCRAPER \<Rightarrow> ''ConnectorType.WEBSCRAPER''
      | EMAIL_FORWARDING \<Rightarrow> ''ConnectorType.EMAIL_FORWARDING'')"

text \<open>
  \<^verbatim>\<open>[item.get("external_id") for item in items if item.get("external_id")]\<close>
\<close>

definition external_ids_of :: "item list \<Rightarrow> string list" where
  "external_ids_of items =
     map (\<lambda>it. case it_external_id it of None \<Rightarrow> [] | Some e \<Rightarrow> e)
       (filter (\<lambda>it. truthy (it_external_id it)) items)"

text \<open>The deduplication loop: an item is skipped when its external id is a key of \<open>existing\<close>.\<close>

definition select_new_items :: "item list \<Rightarrow> (string \<rightharpoonup> document) \<Rightarrow> item list" where
  "select_new_items items existing =
     filter (\<lambda>it. \<not> (truthy (it_external_id it)
                     \<and> (case it_external_id it of None \<Rightarrow> False
                                               | Some e \<Rightarrow> existing e \<noteq> None))) items"

definition document_input_of :: "uuid \<Rightarrow> item \<Rightarrow> document_input" where
  "document_input_of connector_id it =
     \<lparr>in_title = (case it_title it of None \<Rightarrow> Some ''Untitled'' | Some t \<Rightarrow> t),
      in_content = (case it_content it of None \<Rightarrow> Some [] | Some c \<Rightarrow> c),
      in_connector_id = Some connector_id,
      in_external_id = it_external_id it,
      in_source_url = it_source_url it,
      in_mime_type = None\<rparr>"

definition index_doc_of :: "document \<Rightarrow> index_doc" where
  "index_doc_of d =
     \<lparr>ix_id = str_nat (doc_id d),
      ix_title = doc_title d,
      ix_content = (case doc_content d of None \<Rightarrow> [] | Some c \<Rightarrow> c)\<rparr>"

text \<open>
  The body of the \<^verbatim>\<open>try\<close> block, in three parts. A raise is \<open>Inl\<close> of the exception, the
  condition of the session and the state at that moment: the handler works on the same
  session. A flush that fails leaves the session waiting for a rollback.
\<close>

definition create_and_index ::
  "env \<Rightarrow> sync_task \<Rightarrow> datetime \<Rightarrow> item list \<Rightarrow> db \<Rightarrow> exn \<times> session \<times> db + db" where
  \<comment> \<open>the block under \<^verbatim>\<open>if new_items:\<close>\<close>
  "create_and_index ev task now new_items s =
     (if new_items = [] then Inr s
      else
        (let connector_id = task_connector_id task
         in case create_documents_bulk ev (task_tenant_id task)
                   (map (document_input_of connector_id) new_items) now s of
              Inl e \<Rightarrow> Inl (e, PendingRollback, s)
            | Inr (docs, s1) \<Rightarrow>
                (let s2 = update_progress connector_id
                            (\<lambda>p. p\<lparr>sp_processed_items := int (length docs),
                                    sp_current_step := Some ''Indexing documents...''\<rparr>) s1
                 in (case upsert_documents_batch ev (map index_doc_of docs)
                             (str_nat (task_tenant_id task)) 100 of
                       Inl e \<Rightarrow> Inl (e, Active, s2)
                     | Inr indexed \<Rightarrow>
                         Inr (update_progress connector_id
                                (\<lambda>p. p\<lparr>sp_indexed_items := int (length indexed)\<rparr>) s2)))))"

definition mark_complete :: "uuid \<Rightarrow> datetime \<Rightarrow> db \<Rightarrow> exn \<times> session \<times> db + db" where
  \<comment> \<open>"Mark complete" and "Update connector"; \<^verbatim>\<open>scalar_one()\<close> raises when there is no row\<close>
  "mark_complete connector_id now s =
     (let s1 = update_progress connector_id
                 (\<lambda>p. p\<lparr>sp_status := ''completed'',
                         sp_current_step := Some ''Sync completed'',
                         sp_completed_at := Some now\<rparr>) s
      in (case select_connector connector_id None s1 of
            (None, s2) \<Rightarrow> Inl (NoResultFound, Active, s2)
          | (Some c, s2) \<Rightarrow>
              Inr (update_connector connector_id
                     (\<lambda>c. c\<lparr>conn_sync_status := ''completed'',
                             conn_last_sync_at := Some now\<rparr>) s2)))"

definition sync_body ::
  "env \<Rightarrow> sync_task \<Rightarrow> datetime \<Rightarrow> db \<Rightarrow> exn \<times> session \<times> db + db" where
  "sync_body ev task now s =
     (let connector_id = task_connector_id task in
      case select_progress connector_id s of
        (None, s1) \<Rightarrow> Inl (NoResultFound, Active, s1)
      | (Some progress, s1) \<Rightarrow>
          (case get_connector_class ev (task_connector_type task) of
             Inl e \<Rightarrow> Inl (e, Active, s1)
           | Inr None \<Rightarrow>
               Inr (update_progress connector_id
                      (\<lambda>p. p\<lparr>sp_status := ''failed'',
                              sp_error_message :=
                                Some (''Unknown connector type: ''
                                      @ str_connector_type (task_connector_type task))\<rparr>) s1)
           | Inr (Some connector_class) \<Rightarrow>
               (let s2 = update_progress connector_id
                           (\<lambda>p. p\<lparr>sp_current_step := Some ''Fetching items from source...''\<rparr>)
                           s1
                in case connector_class (task_credentials task) of
                     Inl e \<Rightarrow> Inl (e, Active, s2)
                   | Inr items \<Rightarrow>
                       (let s3 = update_progress connector_id
                                   (\<lambda>p. p\<lparr>sp_total_items := int (length items),
                                           sp_current_step :=
                                             Some (''Processing '' @ str_nat (length items)
                                                   @ '' items...'')\<rparr>) s2;
                            external_ids = external_ids_of items;
                            (existing, s4) = find_by_external_ids external_ids connector_id s3;
                            new_items = select_new_items items existing
                        in case create_and_index ev task now new_items s4 of
                             Inl err \<Rightarrow> Inl err
                           | Inr s5 \<Rightarrow> mark_complete connector_id now s5))))"

text \<open>
  The \<^verbatim>\<open>except Exception as e\<close> block. It does not roll the session back: on a session
  whose flush has failed, its first \<^verbatim>\<open>db.execute\<close> raises, nothing is written and the
  exception leaves the handler. Otherwise it records the failure on the rows it finds.
\<close>

definition pending_rollback_message :: "exn \<Rightarrow> string" where
  "pending_rollback_message e =
     ''This Session's transaction has been rolled back due to a previous exception during ''
     @ ''flush. To begin a new transaction with this Session, first issue ''
     @ ''Session.rollback(). Original exception was: '' @ str_exn e"

definition handle_sync_error ::
  "uuid \<Rightarrow> exn \<Rightarrow> datetime \<Rightarrow> session \<Rightarrow> db \<Rightarrow> exn option \<times> db" where
  "handle_sync_error connector_id e now session s =
     (if session = PendingRollback
      then (Some (PendingRollbackError (pending_rollback_message e)), s)
      else
        (let (progress, s1) = select_progress connector_id s;
             s2 = (case progress of
                     None \<Rightarrow> s1
                   | Some _ \<Rightarrow>
                       update_progress connector_id
                         (\<lambda>p. p\<lparr>sp_status := ''failed'',
                                 sp_error_message := Some (str_exn e),
                                 sp_completed_at := Some now\<rparr>) s1);
             (conn, s3) = select_connector connector_id None s2
         in (None,
             case conn of
               None \<Rightarrow> s3
             | Some _ \<Rightarrow>
                 update_connector connector_id
                   (\<lambda>c. c\<lparr>conn_sync_status := ''failed'',
                           conn_sync_error := Some (str_exn e)\<rparr>) s3)))"

text \<open>
  \<^verbatim>\<open>run_sync_task\<close> returns the exception that leaves the background task, if any, and the
  final state.
\<close>

definition run_sync_task ::
  "env \<Rightarrow> sync_task \<Rightarrow> datetime \<Rightarrow> db \<Rightarrow> exn option \<times> db" where
  "run_sync_task ev task now s =
     (case sync_body ev task now s of
        Inr s' \<Rightarrow> (None, s')
      | Inl (e, session, s') \<Rightarrow> handle_sync_error (task_connector_id task) e now session s')"


section \<open>Document routes (api/document_routes.py)\<close>

definition route_bulk_classify_documents ::
  "uuid list \<Rightarrow> string \<Rightarrow> uuid \<Rightarrow> datetime \<Rightarrow> db \<Rightarrow> (exn + nat) \<times> db" where
  "route_bulk_classify_documents document_ids classification tenant now s =
     (let (docs, s1) = get_documents_by_ids document_ids tenant s
      in if length docs \<noteq> length document_ids
         then (Inl (HTTPException 400 ''Some documents not found or don't belong to you''), s1)
         else (let (count, s2) = bulk_classify_documents document_ids classification 1 now s1
               in (Inr count, s2)))"

definition route_bulk_delete_documents :: "uuid list \<Rightarrow> uuid \<Rightarrow> db \<Rightarrow> exn + nat \<times> db" where
  "route_bulk_delete_documents document_ids tenant s =
     bulk_delete_documents document_ids tenant 100 s"

definition route_bulk_assign_project ::
  "uuid list \<Rightarrow> uuid \<Rightarrow> uuid \<Rightarrow> datetime \<Rightarrow> db \<Rightarrow> (exn + nat) \<times> db" where
  "route_bulk_assign_project document_ids project_id tenant now s =
     (let (count, s1) = bulk_assign_project document_ids project_id now s
      in (Inr count, s1))"

section \<open>ChatService (services/chat_service.py)\<close>

definition add_message ::
  "uuid \<Rightarrow> string \<Rightarrow> string \<Rightarrow> string list option \<Rightarrow> datetime \<Rightarrow> db \<Rightarrow> chat_message \<times> db" where
  "add_message session_id role content sources now s =
     (let message = \<lparr>msg_id = next_uuid s,
                     msg_session_id = session_id,
                     msg_role = role,
                     msg_content = content,
                     msg_sources = sources,
                     msg_created_at = now\<rparr>
      in (message,
          s\<lparr>chat_messages := chat_messages s @ [message],
            next_uuid := Suc (next_uuid s),
            chat_sessions :=
              (case chat_sessions s session_id of
                 None \<Rightarrow> chat_sessions s
               | Some session \<Rightarrow>
                   (chat_sessions s)(session_id \<mapsto> session\<lparr>cs_updated_at := now\<rparr>))\<rparr>))"

text \<open>
  \<^verbatim>\<open>order_by(created_at.asc()).limit(limit)\<close>: the rows of the session in ascending order of
  creation time (rows of equal time in the order of insertion), cut after \<open>limit\<close> rows.
\<close>

definition get_messages :: "uuid \<Rightarrow> nat \<Rightarrow> db \<Rightarrow> chat_message list \<times> db" where
  "get_messages session_id limit s =
     (let rows = take limit
                   (sort_key msg_created_at
                      (filter (\<lambda>m. msg_session_id m = session_id) (chat_messages s)))
      in (rows, s\<lparr>executed := executed s @ [(Select ''chat_messages'', length rows)]\<rparr>))"

definition str_join :: "string \<Rightarrow> string list \<Rightarrow> string" where
  "str_join sep parts =
     (case parts of [] \<Rightarrow> [] | p # ps \<Rightarrow> foldl (\<lambda>acc q. acc @ sep @ q) p ps)"

definition build_context :: "retrieved list \<Rightarrow> string" where
  "build_context docs =
     (if docs = [] then []
      else str_join [CHR 0x0A, CHR 0x0A]
             (map (\<lambda>(i, doc).
                     ''['' @ str_nat i @ ''] ''
                     @ (case ret_title doc of None \<Rightarrow> ''Untitled'' | Some t \<Rightarrow> t)
                     @ '':'' @ [CHR 0x0A]
                     @ take 1000 (case ret_content doc of None \<Rightarrow> [] | Some c \<Rightarrow> c))
                (zip [1 ..< Suc (length docs)] docs)))"

definition get_system_prompt :: string where
  "get_system_prompt =
     ''You are a helpful AI assistant with access to the user's knowledge base.'' @ [CHR 0x0A]
     @ ''Your role is to answer questions based on the provided context from their documents.''
     @ [CHR 0x0A, CHR 0x0A]
     @ ''Guidelines:'' @ [CHR 0x0A]
     @ ''1. Use the provided context to answer questions accurately'' @ [CHR 0x0A]
     @ ''2. If the context doesn't contain enough information, say so honestly'' @ [CHR 0x0A]
     @ ''3. Cite sources by referring to the document numbers [1], [2], etc.'' @ [CHR 0x0A]
     @ ''4. Be concise but thorough'' @ [CHR 0x0A]
     @ ''5. If asked about something not in the context, you can use your general knowledge''
     @ '' but note that it's not from their documents'' @ [CHR 0x0A, CHR 0x0A]
     @ ''Always be helpful, accurate, and respect the user's privacy.''"

definition generate_response ::
  "env \<Rightarrow> (string \<times> string) list \<Rightarrow> string option \<Rightarrow> string option \<Rightarrow> exn + string" where
  "generate_response ev messages context system_prompt =
     (let formatted_messages =
            (case system_prompt of
               None \<Rightarrow> []
             | Some p \<Rightarrow>
                 if p = [] then []
                 else [(''system'',
                        p @ (if truthy context
                             then [CHR 0x0A, CHR 0x0A]
                                  @ ''Relevant context from user's documents:'' @ [CHR 0x0A]
                                  @ (case context of None \<Rightarrow> [] | Some c \<Rightarrow> c)
                             else []))])
            @ messages
      in chat_completion ev formatted_messages)"

record chat_result =
  res_message :: string
  res_sources :: "retrieved list"
  res_message_id :: string

text \<open>
  The first two steps of \<^verbatim>\<open>chat\<close> and \<^verbatim>\<open>chat_stream\<close>: store the user's message, then load
  the history handed to the generation.
\<close>

definition chat_history ::
  "uuid \<Rightarrow> string \<Rightarrow> datetime \<Rightarrow> db \<Rightarrow> (string \<times> string) list \<times> db" where
  "chat_history session_id user_message now s =
     (let (user_msg, s1) = add_message session_id ''user'' user_message None now s;
          (messages, s2) = get_messages session_id 10 s1
      in (map (\<lambda>m. (msg_role m, msg_content m)) messages, s2))"

text \<open>
  A failure of the retrieval or of the generation is not caught in \<^verbatim>\<open>chat\<close>: it is
  \<open>Inl\<close> of the exception and the state of the session at the raise.
\<close>

definition chat ::
  "env \<Rightarrow> uuid \<Rightarrow> uuid \<Rightarrow> string \<Rightarrow> datetime \<Rightarrow> datetime \<Rightarrow> db \<Rightarrow> exn \<times> db + chat_result \<times> db"
  where
  "chat ev session_id tenant_id user_message now now' s =
     (let (history, s2) = chat_history session_id user_message now s
      in case search ev user_message (str_nat tenant_id) 5 of
           Inl e \<Rightarrow> Inl (e, s2)
         | Inr relevant_docs \<Rightarrow>
             (let context = build_context relevant_docs
              in case generate_response ev history (Some context) (Some get_system_prompt) of
                   Inl e \<Rightarrow> Inl (e, s2)
                 | Inr response \<Rightarrow>
                     (let source_ids = map ret_id (filter (\<lambda>doc. ret_id doc \<noteq> []) relevant_docs);
                          (assistant_message, s3) =
                             add_message session_id ''assistant'' response (Some source_ids)
                               now' s2
                      in Inr (\<lparr>res_message = response,
                               res_sources = relevant_docs,
                               res_message_id = str_nat (msg_id assistant_message)\<rparr>, s3))))"

declare bulk_delete_loop.simps [simp del]
declare create_embeddings_loop.simps [simp del]
declare index_upsert_loop.simps [simp del]
declare str_nat.simps [simp del]

section \<open>Reference definitions and sample data\<close>

text \<open>
  The partition of a list into consecutive chunks of at most \<open>k\<close> elements, and the deletion
  of one chunk after the other with the row counts it produces: what "deletes in fixed-size
  chunks" says, to be compared with the loop of \<^verbatim>\<open>bulk_delete_documents\<close>.
\<close>

function chunks :: "nat \<Rightarrow> 'a list \<Rightarrow> 'a list list" where
  "chunks k xs = (if k = 0 \<or> xs = [] then [] else take k xs # chunks k (drop k xs))"
  by pat_completeness auto
termination
  by (relation "measure (\<lambda>(k, xs). length xs)") auto

declare chunks.simps [simp del]

fun delete_chunks :: "uuid \<Rightarrow> uuid list list \<Rightarrow> nat \<Rightarrow> db \<Rightarrow> nat \<times> db" where
  "delete_chunks tenant_id [] total_deleted s = (total_deleted, s)"
| "delete_chunks tenant_id (batch # rest) total_deleted s =
     (let (rowcount, s') =
            delete_documents (\<lambda>d. doc_id d \<in> set batch \<and> doc_tenant_id d = tenant_id) s
      in delete_chunks tenant_id rest (total_deleted + rowcount) s')"

fun chunk_rowcounts :: "uuid \<Rightarrow> uuid list list \<Rightarrow> db \<Rightarrow> nat list" where
  "chunk_rowcounts tenant_id [] s = []"
| "chunk_rowcounts tenant_id (batch # rest) s =
     (let (rowcount, s') =
            delete_documents (\<lambda>d. doc_id d \<in> set batch \<and> doc_tenant_id d = tenant_id) s
      in rowcount # chunk_rowcounts tenant_id rest s')"

text \<open>An empty store and a document row with the column defaults, for concrete runs.\<close>

definition db_empty :: db where
  "db_empty = \<lparr>documents = [], connectors = Map.empty, progress_rows = Map.empty,
               chat_sessions = Map.empty, chat_messages = [], next_uuid = 1000,
               executed = []\<rparr>"

definition mk_doc :: "uuid \<Rightarrow> uuid \<Rightarrow> document" where
  "mk_doc i t =
     \<lparr>doc_id = i, doc_tenant_id = t, doc_connector_id = None, doc_external_id = None,
      doc_title = ''Untitled'', doc_content = None, doc_content_hash = None,
      doc_source_url = None, doc_mime_type = None, doc_status = PENDING,
      doc_classification = None, doc_classification_confidence = None,
      doc_project_id = None, doc_is_indexed = False, doc_updated_at = 0\<rparr>"

text \<open>The row that the update of \<^verbatim>\<open>bulk_classify_documents\<close> writes in place of \<open>d\<close>.\<close>

definition classified_row :: "string \<Rightarrow> real \<Rightarrow> datetime \<Rightarrow> document \<Rightarrow> document" where
  "classified_row classification confidence now d =
     d\<lparr>doc_classification := Some classification,
       doc_classification_confidence := Some confidence,
       doc_status := CLASSIFIED,
       doc_updated_at := now\<rparr>"

text \<open>The SyncProgress row that \<^verbatim>\<open>start_sync\<close> writes.\<close>

definition started_progress :: "datetime \<Rightarrow> sync_progress" where
  "started_progress now =
     \<lparr>sp_status = ''syncing'', sp_total_items = 0, sp_processed_items = 0,
      sp_indexed_items = 0, sp_failed_items = 0,
      sp_current_step = Some ''Starting sync...'', sp_error_message = None,
      sp_started_at = Some now, sp_completed_at = None\<rparr>"

text \<open>
  A connector row and a progress row for concrete runs, and float operations that compute
  exactly (rounding to \<open>n\<close> decimals, a tie going to the even neighbour).
\<close>

definition round_half_even :: "real \<Rightarrow> int" where
  "round_half_even x =
     (let f = \<lfloor>x\<rfloor>; r = x - real_of_int f
      in if r < 1 / 2 then f else if 1 / 2 < r then f + 1 else if even f then f else f + 1)"

definition mk_connector :: "uuid \<Rightarrow> ConnectorType \<Rightarrow> string \<Rightarrow> connector" where
  "mk_connector t ty st =
     \<lparr>conn_tenant_id = t, conn_type = ty, conn_name = ''source'', conn_credentials = ''token'',
      conn_is_active = True, conn_last_sync_at = None, conn_sync_status = st,
      conn_sync_error = None\<rparr>"

definition exact_float_ops :: float_ops where
  "exact_float_ops =
     \<lparr>truediv = (\<lambda>a b. real_of_int a / real_of_int b),
      float_mul = (\<lambda>x n. x * real_of_int n),
      round_ndigits = (\<lambda>x n. real_of_int (round_half_even (x * 10 ^ n)) / 10 ^ n)\<rparr>"

definition mk_progress :: "string \<Rightarrow> int \<Rightarrow> int \<Rightarrow> sync_progress" where
  "mk_progress st n_total n_processed =
     \<lparr>sp_status = st, sp_total_items = n_total, sp_processed_items = n_processed,
      sp_indexed_items = 0, sp_failed_items = 0, sp_current_step = None,
      sp_error_message = None, sp_started_at = None, sp_completed_at = None\<rparr>"

text \<open>
  Collaborators for concrete runs: a source that returns the given items, an index with no
  match, a generation that answers with the content of the last message it is given. The
  messages \<open>old_message 1\<close>, \<open>old_message 2\<close>, ... of session 1 were created at the times
  1, 2, ...
\<close>

definition sample_env :: "item list \<Rightarrow> env" where
  "sample_env items =
     \<lparr>import_connector = (\<lambda>t. Inr (\<lambda>credentials. Inr items)),
      compute_hash = (\<lambda>content. content),
      embeddings_create = (\<lambda>texts. Inr (map (\<lambda>t. [real (length t)]) texts)),
      index_upsert = (\<lambda>vectors namespace. Inr ()),
      index_query = (\<lambda>v k namespace. Inr []),
      chat_completion = (\<lambda>messages. Inr (snd (last messages)))\<rparr>"

definition old_message :: "nat \<Rightarrow> chat_message" where
  "old_message i =
     \<lparr>msg_id = i, msg_session_id = 1, msg_role = ''user'', msg_content = str_nat i,
      msg_sources = None, msg_created_at = i\<rparr>"

text \<open>The body of the task up to the deduplication, when the source answers.\<close>

definition fetched_state :: "uuid \<Rightarrow> item list \<Rightarrow> db \<Rightarrow> db" where
  "fetched_state connector_id items s =
     update_progress connector_id
       (\<lambda>p. p\<lparr>sp_total_items := int (length items),
               sp_current_step := Some (''Processing '' @ str_nat (length items) @ '' items...'')\<rparr>)
       (update_progress connector_id
          (\<lambda>p. p\<lparr>sp_current_step := Some ''Fetching items from source...''\<rparr>)
          (snd (select_progress connector_id s)))"

text \<open>The SyncProgress row at the end of a sync that created nothing.\<close>

definition completed_progress :: "datetime \<Rightarrow> datetime \<Rightarrow> int \<Rightarrow> sync_progress" where
  "completed_progress started finished n =
     \<lparr>sp_status = ''completed'', sp_total_items = n, sp_processed_items = 0,
      sp_indexed_items = 0, sp_failed_items = 0,
      sp_current_step = Some ''Sync completed'', sp_error_message = None,
      sp_started_at = Some started, sp_completed_at = Some finished\<rparr>"


text \<open>An item with an external id, and the document of connector 1 that a sync made of it.\<close>

definition mk_item :: "string \<Rightarrow> item" where
  "mk_item e = \<lparr>it_external_id = Some e, it_title = Some (Some (''Title '' @ e)),
                it_content = Some (Some (''Content of '' @ e)), it_source_url = None\<rparr>"

definition synced_doc :: "uuid \<Rightarrow> string \<Rightarrow> document" where
  "synced_doc i e = (mk_doc i 7)\<lparr>doc_connector_id := Some 1, doc_external_id := Some e\<rparr>"

text \<open>
  Items that the documents table refuses: a title of 501 characters, and a title key whose
  value is \<^verbatim>\<open>None\<close>.
\<close>

definition long_title_item :: item where
  "long_title_item = (mk_item ''a'')\<lparr>it_title := Some (Some (replicate 501 (CHR ''x'')))\<rparr>"

definition null_title_item :: item where
  "null_title_item = (mk_item ''b'')\<lparr>it_title := Some None\<rparr>"

text \<open>A source whose fetch raises, and the task of connector 1.\<close>

definition failing_env :: "string \<Rightarrow> env" where
  "failing_env msg =
     (sample_env [])\<lparr>import_connector := (\<lambda>t. Inr (\<lambda>credentials. Inl (Exception msg)))\<rparr>"

definition sync_task_1 :: sync_task where
  "sync_task_1 = \<lparr>task_connector_id = 1, task_connector_type = SLACK,
                  task_credentials = ''token'', task_tenant_id = 7\<rparr>"

section \<open>Verified properties\<close>

subsection \<open>Statistics\<close>


lemma or0_sql_sum_case_when:
  "or0 (sql_sum (map (\<lambda>d. case_when (P d)) (filter T rows)))
     = int (length (filter (\<lambda>d. T d \<and> P d) rows))"
proof -
  have "sum_list (map (\<lambda>d. case_when (P d)) (filter T rows))
          = int (length (filter (\<lambda>d. T d \<and> P d) rows))"
    by (induction rows) (simp_all add: case_when_def)
  moreover have "filter T rows = [] \<Longrightarrow> filter (\<lambda>d. T d \<and> P d) rows = []"
    by (induction rows) (simp_all split: if_splits)
  ultimately show ?thesis
    by (simp add: or0_def sql_sum_def)
qed

lemma length_by_status:
  "length (filter T rows) =
     length (filter (\<lambda>d. T d \<and> doc_status d = PENDING) rows)
   + length (filter (\<lambda>d. T d \<and> doc_status d = PROCESSING) rows)
   + length (filter (\<lambda>d. T d \<and> doc_status d = CLASSIFIED) rows)
   + length (filter (\<lambda>d. T d \<and> doc_status d = INDEXED) rows)
   + length (filter (\<lambda>d. T d \<and> doc_status d = FAILED) rows)"
proof (induction rows)
  case Nil
  show ?case by simp
next
  case (Cons d rows)
  then show ?case by (cases "doc_status d") simp_all
qed

lemma get_document_stats_buckets:
  "fst (get_document_stats tenant_id s) =
     \<lparr>st_total = int (length (filter (\<lambda>d. doc_tenant_id d = tenant_id) (documents s))),
      st_pending = int (length (filter (\<lambda>d. doc_tenant_id d = tenant_id \<and> doc_status d = PENDING) (documents s))),
      st_processing = int (length (filter (\<lambda>d. doc_tenant_id d = tenant_id \<and> doc_status d = PROCESSING) (documents s))),
      st_classified = int (length (filter (\<lambda>d. doc_tenant_id d = tenant_id \<and> doc_status d = CLASSIFIED) (documents s))),
      st_indexed = int (length (filter (\<lambda>d. doc_tenant_id d = tenant_id \<and> doc_status d = INDEXED) (documents s))),
      st_failed = int (length (filter (\<lambda>d. doc_tenant_id d = tenant_id \<and> doc_status d = FAILED) (documents s))),
      st_in_vector_db = int (length (filter (\<lambda>d. doc_tenant_id d = tenant_id \<and> doc_is_indexed d) (documents s)))\<rparr>"
  unfolding get_document_stats_def Let_def fst_conv or0_sql_sum_case_when
  by (simp add: or0_def)

text \<open>
  Claim C9. For every tenant and every population of documents, the total reported by
  \<^verbatim>\<open>get_document_stats\<close> is the sum of the five status buckets; the total counts the
  tenant's documents, each bucket the tenant's documents in that status, and the whole result
  comes from one executed query.
\<close>

theorem get_document_stats_total:
  "st_total (fst (get_document_stats tenant_id s)) =
      st_pending (fst (get_document_stats tenant_id s))
    + st_processing (fst (get_document_stats tenant_id s))
    + st_classified (fst (get_document_stats tenant_id s))
    + st_indexed (fst (get_document_stats tenant_id s))
    + st_failed (fst (get_document_stats tenant_id s))
   \<and> st_total (fst (get_document_stats tenant_id s)) =
       int (length (filter (\<lambda>d. doc_tenant_id d = tenant_id) (documents s)))
   \<and> st_pending (fst (get_document_stats tenant_id s)) =
       int (length (filter (\<lambda>d. doc_tenant_id d = tenant_id \<and> doc_status d = PENDING) (documents s)))
   \<and> st_processing (fst (get_document_stats tenant_id s)) =
       int (length (filter (\<lambda>d. doc_tenant_id d = tenant_id \<and> doc_status d = PROCESSING) (documents s)))
   \<and> st_classified (fst (get_document_stats tenant_id s)) =
       int (length (filter (\<lambda>d. doc_tenant_id d = tenant_id \<and> doc_status d = CLASSIFIED) (documents s)))
   \<and> st_indexed (fst (get_document_stats tenant_id s)) =
       int (length (filter (\<lambda>d. doc_tenant_id d = tenant_id \<and> doc_status d = INDEXED) (documents s)))
   \<and> st_failed (fst (get_document_stats tenant_id s)) =
       int (length (filter (\<lambda>d. doc_tenant_id d = tenant_id \<and> doc_status d = FAILED) (documents s)))
   \<and> snd (get_document_stats tenant_id s) =
       s\<lparr>executed := executed s @ [(Select ''documents'', 1)]\<rparr>"
proof -
  have log: "snd (get_document_stats tenant_id s) =
       s\<lparr>executed := executed s @ [(Select ''documents'', 1)]\<rparr>"
    by (simp add: get_document_stats_def Let_def)
  show ?thesis
    unfolding get_document_stats_buckets log
    using length_by_status [of "\<lambda>d. doc_tenant_id d = tenant_id" "documents s"]
    by simp
qed


subsection \<open>Batched deletion\<close>

lemma concat_chunks: "0 < k \<Longrightarrow> concat (chunks k xs) = xs"
proof (induction k xs rule: chunks.induct)
  case (1 k xs)
  then show ?case by (subst chunks.simps) simp
qed

lemma chunks_bounded: "c \<in> set (chunks k xs) \<Longrightarrow> c \<noteq> [] \<and> length c \<le> k"
proof (induction k xs rule: chunks.induct)
  case (1 k xs)
  from "1.prems" have nz: "\<not> (k = 0 \<or> xs = [])"
    by (subst (asm) chunks.simps) (auto split: if_splits)
  from "1.prems" nz have "c = take k xs \<or> c \<in> set (chunks k (drop k xs))"
    by (subst (asm) chunks.simps) simp
  then show ?case
  proof
    assume "c = take k xs"
    with nz show ?thesis by simp
  next
    assume "c \<in> set (chunks k (drop k xs))"
    with "1.IH" nz show ?thesis by simp
  qed
qed

lemma ceil_div_small:
  fixes n k :: nat
  assumes "0 < n" "n \<le> k"
  shows "(n + k - 1) div k = 1"
proof -
  obtain m where n: "n = Suc m" using assms(1) by (cases n) auto
  with assms(2) have "m < k" by simp
  have "(n + k - 1) div k = (m + k) div k" by (simp add: n)
  also have "\<dots> = Suc (m div k)" using \<open>m < k\<close> by simp
  also have "\<dots> = 1" using \<open>m < k\<close> by simp
  finally show ?thesis .
qed

lemma ceil_div_step:
  fixes n k :: nat
  assumes "0 < k" "k < n"
  shows "(n + k - 1) div k = Suc ((n - k + k - 1) div k)"
proof -
  obtain m where n: "n = Suc m + k" using assms(2) by (metis less_imp_Suc_add add.commute add_Suc_right add_Suc)
  have "(n + k - 1) div k = (m + k + k) div k" by (simp add: n)
  also have "\<dots> = Suc ((m + k) div k)" using assms(1) by simp
  also have "(m + k) = (n - k + k - 1)" by (simp add: n)
  finally show ?thesis .
qed

lemma length_chunks: "0 < k \<Longrightarrow> length (chunks k xs) = (length xs + k - 1) div k"
proof (induction k xs rule: chunks.induct)
  case (1 k xs)
  show ?case
  proof (cases "xs = []")
    case True
    with "1.prems" show ?thesis by (subst chunks.simps) simp
  next
    case False
    with "1.prems" have ne: "\<not> (k = 0 \<or> xs = [])" by simp
    have ih: "length (chunks k (drop k xs)) = (length (drop k xs) + k - 1) div k"
      using "1.IH" [OF ne] "1.prems" by simp
    have step: "length (chunks k xs) = Suc (length (chunks k (drop k xs)))"
      using ne by (subst chunks.simps) simp
    show ?thesis
    proof (cases "length xs \<le> k")
      case True
      from False have "0 < length xs" by simp
      from ceil_div_small [OF this True] True step ih "1.prems" show ?thesis by simp
    next
      case gt: False
      then have "k < length xs" by simp
      from ceil_div_step [OF "1.prems" this] step ih show ?thesis by simp
    qed
  qed
qed

lemma bulk_delete_loop_chunks:
  "0 < k \<Longrightarrow> bulk_delete_loop ids t k i acc s = delete_chunks t (chunks k (drop i ids)) acc s"
proof (induction ids t k i acc s rule: bulk_delete_loop.induct)
  case (1 ids t k i acc s)
  show ?case
  proof (cases "i < length ids")
    case True
    obtain rc s' where d: "delete_documents (\<lambda>d. doc_id d \<in> set (take k (drop i ids)) \<and> doc_tenant_id d = t) s = (rc, s')"
      by (cases "delete_documents (\<lambda>d. doc_id d \<in> set (take k (drop i ids)) \<and> doc_tenant_id d = t) s")
    have ih: "bulk_delete_loop ids t k (i + k) (acc + rc) s'
               = delete_chunks t (chunks k (drop (i + k) ids)) (acc + rc) s'"
      using "1.IH" [OF _ refl d [symmetric] refl] True "1.prems" by simp
    have ch: "chunks k (drop i ids) = take k (drop i ids) # chunks k (drop (i + k) ids)"
      using True "1.prems" by (subst chunks.simps) (simp add: add.commute)
    show ?thesis
      using True "1.prems" d ih by (subst bulk_delete_loop.simps) (simp add: ch)
  next
    case False
    then have "chunks k (drop i ids) = []" by (subst chunks.simps) simp
    with False show ?thesis by (subst bulk_delete_loop.simps) simp
  qed
qed


lemma length_chunk_rowcounts: "length (chunk_rowcounts t cs s) = length cs"
  by (induction cs arbitrary: s) (simp_all add: split_beta Let_def)

lemma delete_documents_length:
  "length (documents (snd (delete_documents p s))) + fst (delete_documents p s)
     = length (documents s)"
  by (simp add: delete_documents_def Let_def sum_length_filter_compl add.commute)

lemma delete_documents_executed:
  "executed (snd (delete_documents p s))
     = executed s @ [(Delete ''documents'', fst (delete_documents p s))]"
  by (simp add: delete_documents_def Let_def)

lemma delete_chunks_total:
  "fst (delete_chunks t cs acc s) = acc + sum_list (chunk_rowcounts t cs s)"
  by (induction cs arbitrary: acc s) (simp_all add: split_beta Let_def)

lemma delete_chunks_executed:
  "executed (snd (delete_chunks t cs acc s))
     = executed s @ map (\<lambda>n. (Delete ''documents'', n)) (chunk_rowcounts t cs s)"
  by (induction cs arbitrary: acc s)
     (simp_all add: split_beta Let_def delete_documents_executed)

lemma delete_chunks_length:
  "length (documents (snd (delete_chunks t cs acc s))) + sum_list (chunk_rowcounts t cs s)
     = length (documents s)"
proof (induction cs arbitrary: acc s)
  case Nil
  show ?case by simp
next
  case (Cons batch rest)
  let ?p = "\<lambda>d. doc_id d \<in> set batch \<and> doc_tenant_id d = t"
  from Cons [of "acc + fst (delete_documents ?p s)" "snd (delete_documents ?p s)"]
       delete_documents_length [of ?p s]
  show ?case by (simp add: split_beta Let_def)
qed

lemma bulk_delete_documents_run:
  "bulk_delete_documents ids t 100 s = Inr (delete_chunks t (chunks 100 ids) 0 s)"
proof (cases "ids = []")
  case True
  then have "chunks 100 ids = []" by (subst chunks.simps) simp
  with True show ?thesis by (simp add: bulk_delete_documents_def)
next
  case False
  then show ?thesis
    using bulk_delete_loop_chunks [of 100 ids t 0 0 s]
    by (simp add: bulk_delete_documents_def)
qed

lemma delete_chunks_documents:
  "documents (snd (delete_chunks t cs acc s))
     = filter (\<lambda>d. \<not> (doc_id d \<in> set (concat cs) \<and> doc_tenant_id d = t)) (documents s)"
proof (induction cs arbitrary: acc s)
  case Nil
  show ?case by simp
next
  case (Cons batch rest)
  show ?case
    by (simp add: split_beta Let_def Cons delete_documents_def) (rule filter_cong, auto)
qed

text \<open>
  Claim C6. With a batch size of 100, \<^verbatim>\<open>bulk_delete_documents\<close> always returns; it deletes
  chunk by chunk over the partition of the id list into consecutive non-empty chunks of at
  most 100 ids, executes exactly \<open>\<lceil>n / 100\<rceil>\<close> delete statements whatever their row counts
  are (a chunk that deletes no row does not stop the loop), and returns the sum of the row
  counts, which is the number of rows removed from the table.
\<close>

theorem bulk_delete_documents_batches:
  "\<exists>total_deleted s' rowcounts.
     bulk_delete_documents ids t 100 s = Inr (total_deleted, s')
   \<and> (total_deleted, s') = delete_chunks t (chunks 100 ids) 0 s
   \<and> concat (chunks 100 ids) = ids
   \<and> list_all (\<lambda>batch. batch \<noteq> [] \<and> length batch \<le> 100) (chunks 100 ids)
   \<and> length (chunks 100 ids) = (length ids + 99) div 100
   \<and> rowcounts = chunk_rowcounts t (chunks 100 ids) s
   \<and> length rowcounts = (length ids + 99) div 100
   \<and> executed s' = executed s @ map (\<lambda>n. (Delete ''documents'', n)) rowcounts
   \<and> total_deleted = sum_list rowcounts
   \<and> length (documents s') + total_deleted = length (documents s)"
proof -
  let ?r = "delete_chunks t (chunks 100 ids) 0 s"
  have run: "bulk_delete_documents ids t 100 s = Inr ?r"
    by (rule bulk_delete_documents_run)
  have len: "length (chunks 100 ids) = (length ids + 99) div 100"
    using length_chunks [of 100 ids] by simp
  have bnd: "list_all (\<lambda>batch. batch \<noteq> [] \<and> length batch \<le> 100) (chunks 100 ids)"
    using chunks_bounded [of _ 100 ids] by (auto simp: list_all_iff)
  obtain n s' where r: "?r = (n, s')" by (cases ?r)
  have "bulk_delete_documents ids t 100 s = Inr (n, s')"
    using run r by simp
  moreover have "(n, s') = ?r" using r by simp
  moreover have "concat (chunks 100 ids) = ids" by (rule concat_chunks) simp
  moreover have "length (chunk_rowcounts t (chunks 100 ids) s) = (length ids + 99) div 100"
    using len by (simp add: length_chunk_rowcounts)
  moreover have "executed s' = executed s
           @ map (\<lambda>n. (Delete ''documents'', n)) (chunk_rowcounts t (chunks 100 ids) s)"
    using delete_chunks_executed [of t "chunks 100 ids" 0 s] r by simp
  moreover have "n = sum_list (chunk_rowcounts t (chunks 100 ids) s)"
    using delete_chunks_total [of t "chunks 100 ids" 0 s] r by simp
  moreover have "length (documents s') + n = length (documents s)"
    using delete_chunks_length [of t "chunks 100 ids" 0 s]
          delete_chunks_total [of t "chunks 100 ids" 0 s] r by simp
  ultimately show ?thesis using len bnd by blast
qed

text \<open>250 ids: three delete statements.\<close>

theorem bulk_delete_documents_batches_witness:
  "\<exists>total_deleted s'.
     bulk_delete_documents [1 ..< 251] 7 100 (db_empty\<lparr>documents := [mk_doc 150 7, mk_doc 249 7]\<rparr>)
       = Inr (total_deleted, s')
   \<and> length (executed s') = 3"
proof -
  let ?s = "db_empty\<lparr>documents := [mk_doc 150 7, mk_doc 249 7]\<rparr>"
  from bulk_delete_documents_batches [of "[1 ..< 251]" 7 ?s]
  obtain n s' rowcounts where
    "bulk_delete_documents [1 ..< 251] 7 100 ?s = Inr (n, s')"
    "length rowcounts = (length [1 ..< 251 :: nat] + 99) div 100"
    "executed s' = executed ?s @ map (\<lambda>n. (Delete ''documents'', n)) rowcounts"
    by blast
  then show ?thesis by (simp add: db_empty_def)
qed

text \<open>
  A run on 250 ids in which the first chunk deletes nothing: the second and the third chunk
  are still processed, and the row of another tenant stays.
\<close>

lemma bulk_delete_documents_empty_chunk_example:
  "(case bulk_delete_documents [1 ..< 251] 7 100
           (db_empty\<lparr>documents := [mk_doc 150 7, mk_doc 249 7, mk_doc 3 8]\<rparr>) of
      Inl e \<Rightarrow> False
    | Inr (n, s') \<Rightarrow>
        n = 2 \<and> map doc_id (documents s') = [3]
        \<and> executed s' = [(Delete ''documents'', 0), (Delete ''documents'', 1),
                          (Delete ''documents'', 1)])"
  by code_simp

subsection \<open>Bulk classification\<close>



subsection \<open>Tenant scope of the bulk operations\<close>

lemma route_bulk_delete_documents_result:
  "\<exists>n s'. route_bulk_delete_documents ids t s = Inr (n, s')
     \<and> documents s' = filter (\<lambda>d. \<not> (doc_id d \<in> set ids \<and> doc_tenant_id d = t)) (documents s)"
proof -
  let ?r = "delete_chunks t (chunks 100 ids) 0 s"
  have "route_bulk_delete_documents ids t s = Inr (fst ?r, snd ?r)"
    by (simp add: route_bulk_delete_documents_def bulk_delete_documents_run)
  moreover have "documents (snd ?r)
      = filter (\<lambda>d. \<not> (doc_id d \<in> set ids \<and> doc_tenant_id d = t)) (documents s)"
    by (simp only: delete_chunks_documents concat_chunks [of 100 ids, simplified])
  ultimately show ?thesis by blast
qed

text \<open>Primary key: all ids given are ids of own documents when the route's check passes.\<close>

lemma all_ids_owned:
  assumes pk: "distinct (map doc_id docs)"
    and len: "length (filter (\<lambda>d. doc_id d \<in> set ids \<and> doc_tenant_id d = t) docs) = length ids"
    and d: "d \<in> set docs" "doc_id d \<in> set ids"
  shows "doc_tenant_id d = t"
proof -
  let ?own = "filter (\<lambda>d. doc_id d \<in> set ids \<and> doc_tenant_id d = t) docs"
  have dist: "distinct (map doc_id ?own)"
    using pk by (simp add: distinct_map_filter)
  have sub: "set (map doc_id ?own) \<subseteq> set ids" by auto
  have "length ids = card (set (map doc_id ?own))"
    using dist len by (metis distinct_card length_map)
  also have "\<dots> \<le> card (set ids)" using sub by (simp add: card_mono)
  finally have "card (set ids) = length ids"
    using card_length [of ids] by simp
  moreover have "card (set (map doc_id ?own)) = length ids"
    using dist len by (metis distinct_card length_map)
  ultimately have "set (map doc_id ?own) = set ids"
    using sub by (simp add: card_subset_eq)
  with d(2) have "doc_id d \<in> doc_id ` set ?own" by simp
  then obtain d0 where d0: "d0 \<in> set ?own" "doc_id d0 = doc_id d" by (auto simp: image_iff)
  then have "d0 \<in> set docs" "doc_tenant_id d0 = t" by auto
  moreover have "inj_on doc_id (set docs)" using pk by (simp add: distinct_map)
  ultimately have "d0 = d" using d(1) d0(2) by (auto dest: inj_onD)
  with \<open>doc_tenant_id d0 = t\<close> show ?thesis by simp
qed

lemma update_documents_foreign:
  assumes "\<forall>d \<in> set (documents s). p d \<longrightarrow> doc_tenant_id d = t"
    and "\<forall>d. doc_tenant_id (f d) = doc_tenant_id d"
  shows "filter (\<lambda>d. doc_tenant_id d \<noteq> t) (documents (snd (update_documents p f s)))
           = filter (\<lambda>d. doc_tenant_id d \<noteq> t) (documents s)"
proof -
  have "filter (\<lambda>d. doc_tenant_id d \<noteq> t) (map (\<lambda>d. if p d then f d else d) docs)
           = filter (\<lambda>d. doc_tenant_id d \<noteq> t) docs"
    if "\<forall>d \<in> set docs. p d \<longrightarrow> doc_tenant_id d = t" for docs
    using that assms(2) by (induction docs) auto
  with assms(1) show ?thesis by (simp add: update_documents_def Let_def)
qed

text \<open>
  Claim C5, as amended. Document ids are primary keys. \<^verbatim>\<open>bulk_delete_documents\<close> carries
  the tenant predicate: the delete route always returns, removes exactly the caller's rows
  whose id is in the list and keeps every row of another tenant. The classify route has no
  such predicate in its update; it checks the ids first, so a row of another tenant is never
  changed by it, and a list naming a document of another tenant is refused with an error
  (400) before any update.
\<close>

theorem bulk_operations_tenant_scope:
  assumes pk: "distinct (map doc_id (documents s))"
  shows "(\<exists>n s'. route_bulk_delete_documents ids t s = Inr (n, s')
            \<and> documents s'
                = filter (\<lambda>d. \<not> (doc_id d \<in> set ids \<and> doc_tenant_id d = t)) (documents s)
            \<and> filter (\<lambda>d. doc_tenant_id d \<noteq> t) (documents s')
                = filter (\<lambda>d. doc_tenant_id d \<noteq> t) (documents s))
       \<and> filter (\<lambda>d. doc_tenant_id d \<noteq> t)
            (documents (snd (route_bulk_classify_documents ids c t now s)))
           = filter (\<lambda>d. doc_tenant_id d \<noteq> t) (documents s)
       \<and> ((\<exists>d \<in> set (documents s). doc_id d \<in> set ids \<and> doc_tenant_id d \<noteq> t) \<longrightarrow>
             fst (route_bulk_classify_documents ids c t now s)
               = Inl (HTTPException 400 ''Some documents not found or don't belong to you'')
           \<and> documents (snd (route_bulk_classify_documents ids c t now s)) = documents s)"
proof -
  let ?own = "filter (\<lambda>d. doc_id d \<in> set ids \<and> doc_tenant_id d = t) (documents s)"
  let ?f = "\<lambda>d. d\<lparr>doc_classification := Some c, doc_classification_confidence := Some 1,
                    doc_status := CLASSIFIED, doc_updated_at := now\<rparr>"
  from route_bulk_delete_documents_result [of ids t s]
  obtain n s' where del: "route_bulk_delete_documents ids t s = Inr (n, s')"
    "documents s' = filter (\<lambda>d. \<not> (doc_id d \<in> set ids \<and> doc_tenant_id d = t)) (documents s)"
    by blast
  have "filter (\<lambda>d. doc_tenant_id d \<noteq> t) (documents s')
          = filter (\<lambda>d. doc_tenant_id d \<noteq> t) (documents s)"
    unfolding del(2) by (simp, rule filter_cong, auto)
  with del have A: "\<exists>n s'. route_bulk_delete_documents ids t s = Inr (n, s')
            \<and> documents s'
                = filter (\<lambda>d. \<not> (doc_id d \<in> set ids \<and> doc_tenant_id d = t)) (documents s)
            \<and> filter (\<lambda>d. doc_tenant_id d \<noteq> t) (documents s')
                = filter (\<lambda>d. doc_tenant_id d \<noteq> t) (documents s)"
    by blast
  have rej: "fst (route_bulk_classify_documents ids c t now s)
               = Inl (HTTPException 400 ''Some documents not found or don't belong to you'')
           \<and> documents (snd (route_bulk_classify_documents ids c t now s)) = documents s"
    if "ids \<noteq> []" "length ?own \<noteq> length ids"
    using that
    by (simp add: route_bulk_classify_documents_def get_documents_by_ids_def
          select_documents_def Let_def)
  have acc: "documents (snd (route_bulk_classify_documents ids c t now s))
               = documents (snd (update_documents (\<lambda>d. doc_id d \<in> set ids) ?f s))"
    if "ids \<noteq> []" "length ?own = length ids"
    using that
    by (simp add: route_bulk_classify_documents_def get_documents_by_ids_def
          select_documents_def Let_def bulk_classify_documents_def update_documents_def split_beta)
  have empty: "documents (snd (route_bulk_classify_documents [] c t now s)) = documents s"
    by (simp add: route_bulk_classify_documents_def get_documents_by_ids_def
          bulk_classify_documents_def)
  have B: "filter (\<lambda>d. doc_tenant_id d \<noteq> t)
            (documents (snd (route_bulk_classify_documents ids c t now s)))
           = filter (\<lambda>d. doc_tenant_id d \<noteq> t) (documents s)"
  proof (cases "ids = []")
    case True
    with empty show ?thesis by simp
  next
    case ne: False
    show ?thesis
    proof (cases "length ?own = length ids")
      case True
      have own: "\<forall>d \<in> set (documents s). doc_id d \<in> set ids \<longrightarrow> doc_tenant_id d = t"
        using all_ids_owned [OF pk True] by blast
      show ?thesis
        unfolding acc [OF ne True]
        by (rule update_documents_foreign [OF own]) simp
    next
      case False
      with rej [OF ne] show ?thesis by simp
    qed
  qed
  have C: "fst (route_bulk_classify_documents ids c t now s)
               = Inl (HTTPException 400 ''Some documents not found or don't belong to you'')
           \<and> documents (snd (route_bulk_classify_documents ids c t now s)) = documents s"
    if ex: "\<exists>d \<in> set (documents s). doc_id d \<in> set ids \<and> doc_tenant_id d \<noteq> t"
  proof -
    from ex have ne: "ids \<noteq> []" by auto
    have "length ?own \<noteq> length ids"
    proof
      assume "length ?own = length ids"
      from all_ids_owned [OF pk this] ex show False by blast
    qed
    with rej [OF ne] show ?thesis by simp
  qed
  from A B C show ?thesis by blast
qed


text \<open>A list with one own and one foreign id: the delete filters, the classify route refuses.\<close>

theorem bulk_operations_tenant_scope_witness:
  "distinct (map doc_id (documents (db_empty\<lparr>documents := [mk_doc 1 7, mk_doc 3 8]\<rparr>)))
   \<and> (\<exists>n s'. route_bulk_delete_documents [1, 3] 7
                 (db_empty\<lparr>documents := [mk_doc 1 7, mk_doc 3 8]\<rparr>) = Inr (n, s')
              \<and> documents s' = [mk_doc 3 8])
   \<and> fst (route_bulk_classify_documents [1, 3] ''work'' 7 5
             (db_empty\<lparr>documents := [mk_doc 1 7, mk_doc 3 8]\<rparr>))
       = Inl (HTTPException 400 ''Some documents not found or don't belong to you'')
   \<and> documents (snd (route_bulk_classify_documents [1, 3] ''work'' 7 5
             (db_empty\<lparr>documents := [mk_doc 1 7, mk_doc 3 8]\<rparr>)))
       = [mk_doc 1 7, mk_doc 3 8]"
proof -
  let ?s = "db_empty\<lparr>documents := [mk_doc 1 7, mk_doc 3 8]\<rparr>"
  have pk: "distinct (map doc_id (documents ?s))"
    by (simp add: db_empty_def mk_doc_def)
  have ex: "\<exists>d \<in> set (documents ?s). doc_id d \<in> set [1, 3] \<and> doc_tenant_id d \<noteq> 7"
    by (simp add: db_empty_def mk_doc_def)
  have docs: "documents ?s = [mk_doc 1 7, mk_doc 3 8]" by (simp add: db_empty_def)
  from bulk_operations_tenant_scope [OF pk, of "[1, 3]" 7 "''work''" 5] ex
  have del: "\<exists>n s'. route_bulk_delete_documents [1, 3] 7 ?s = Inr (n, s')
            \<and> documents s'
                = filter (\<lambda>d. \<not> (doc_id d \<in> set [1, 3] \<and> doc_tenant_id d = 7)) (documents ?s)"
    and cls: "fst (route_bulk_classify_documents [1, 3] ''work'' 7 5 ?s)
               = Inl (HTTPException 400 ''Some documents not found or don't belong to you'')"
             "documents (snd (route_bulk_classify_documents [1, 3] ''work'' 7 5 ?s)) = documents ?s"
    by blast+
  have "filter (\<lambda>d. \<not> (doc_id d \<in> set [1, 3] \<and> doc_tenant_id d = 7)) (documents ?s)
          = [mk_doc 3 8]"
    by (simp add: db_empty_def mk_doc_def)
  with del have "\<exists>n s'. route_bulk_delete_documents [1, 3] 7 ?s = Inr (n, s')
              \<and> documents s' = [mk_doc 3 8]" by simp
  with pk cls docs show ?thesis by simp
qed

text \<open>
  The claim as stated fails: tenant 7 names document 3 of tenant 8. The classify route raises
  instead of filtering, the update of \<^verbatim>\<open>bulk_classify_documents\<close> itself rewrites the
  foreign row, and the assign-project route, which checks nothing, rewrites it as well.
\<close>

theorem bulk_operations_tenant_scope_counterexample:
  "doc_tenant_id (mk_doc 3 8) \<noteq> 7
   \<and> fst (route_bulk_classify_documents [3] ''work'' 7 5 (db_empty\<lparr>documents := [mk_doc 3 8]\<rparr>))
       = Inl (HTTPException 400 ''Some documents not found or don't belong to you'')
   \<and> documents (snd (bulk_classify_documents [3] ''work'' 1 5
                        (db_empty\<lparr>documents := [mk_doc 3 8]\<rparr>)))
       = [classified_row ''work'' 1 5 (mk_doc 3 8)]
   \<and> classified_row ''work'' 1 5 (mk_doc 3 8) \<noteq> mk_doc 3 8
   \<and> fst (route_bulk_assign_project [3] 42 7 5 (db_empty\<lparr>documents := [mk_doc 3 8]\<rparr>)) = Inr 1
   \<and> documents (snd (route_bulk_assign_project [3] 42 7 5
                        (db_empty\<lparr>documents := [mk_doc 3 8]\<rparr>)))
       = [(mk_doc 3 8)\<lparr>doc_project_id := Some 42, doc_updated_at := 5\<rparr>]"
  by (simp add: route_bulk_classify_documents_def get_documents_by_ids_def
        select_documents_def bulk_classify_documents_def update_documents_def
        route_bulk_assign_project_def bulk_assign_project_def classified_row_def
        db_empty_def mk_doc_def Let_def)

subsection \<open>Starting a sync\<close>

text \<open>
  Claim C4. For a connector of the caller: if its \<open>sync_status\<close> is \<open>syncing\<close>,
  \<^verbatim>\<open>start_sync\<close> raises the HTTPException "Sync already in progress" (status 400) and
  the state is the one before the call but for the record of the lookup; from every other
  status (idle, completed, failed) it succeeds, schedules the task, writes the progress row
  with status syncing, four zero counters, no error, the start time and no completion time,
  and sets the connector's \<open>sync_status\<close> to syncing; nothing else changes.
\<close>

theorem start_sync_guard:
  assumes "connectors s connector_id = Some c" and "conn_tenant_id c = tenant_id"
  shows "(conn_sync_status c = ''syncing'' \<longrightarrow>
            start_sync connector_id tenant_id now s
              = (Inl (HTTPException 400 ''Sync already in progress''),
                 s\<lparr>executed := executed s @ [(Select ''connectors'', 1)]\<rparr>))
       \<and> (conn_sync_status c \<noteq> ''syncing'' \<longrightarrow>
            (\<exists>s'. start_sync connector_id tenant_id now s
                    = (Inr (''Sync started'',
                            \<lparr>task_connector_id = connector_id,
                             task_connector_type = conn_type c,
                             task_credentials = conn_credentials c,
                             task_tenant_id = tenant_id\<rparr>), s')
                 \<and> progress_rows s' connector_id = Some (started_progress now)
                 \<and> connectors s' connector_id = Some (c\<lparr>conn_sync_status := ''syncing''\<rparr>)
                 \<and> (\<forall>k. k \<noteq> connector_id \<longrightarrow>
                        progress_rows s' k = progress_rows s k
                        \<and> connectors s' k = connectors s k)
                 \<and> documents s' = documents s
                 \<and> chat_messages s' = chat_messages s
                 \<and> chat_sessions s' = chat_sessions s))"
  using assms
  by (simp add: start_sync_def select_connector_def select_progress_def Let_def
        started_progress_def)

text \<open>A connector that is syncing, and one whose last sync failed.\<close>

theorem start_sync_guard_witness:
  "fst (start_sync 1 7 50 (db_empty\<lparr>connectors := [1 \<mapsto> mk_connector 7 SLACK ''syncing'']\<rparr>))
     = Inl (HTTPException 400 ''Sync already in progress'')
   \<and> connectors (snd (start_sync 1 7 50
         (db_empty\<lparr>connectors := [1 \<mapsto> mk_connector 7 SLACK ''syncing'']\<rparr>))) 1
     = Some (mk_connector 7 SLACK ''syncing'')
   \<and> progress_rows (snd (start_sync 1 7 50
         (db_empty\<lparr>connectors := [1 \<mapsto> mk_connector 7 SLACK ''syncing'']\<rparr>))) 1 = None
   \<and> progress_rows (snd (start_sync 1 7 50
         (db_empty\<lparr>connectors := [1 \<mapsto> mk_connector 7 SLACK ''failed'']\<rparr>))) 1
     = Some (started_progress 50)
   \<and> connectors (snd (start_sync 1 7 50
         (db_empty\<lparr>connectors := [1 \<mapsto> mk_connector 7 SLACK ''failed'']\<rparr>))) 1
     = Some (mk_connector 7 SLACK ''syncing'')"
proof -
  let ?a = "db_empty\<lparr>connectors := [1 \<mapsto> mk_connector 7 SLACK ''syncing'']\<rparr>"
  let ?b = "db_empty\<lparr>connectors := [1 \<mapsto> mk_connector 7 SLACK ''failed'']\<rparr>"
  have a: "connectors ?a 1 = Some (mk_connector 7 SLACK ''syncing'')"
          "conn_tenant_id (mk_connector 7 SLACK ''syncing'') = 7"
          "conn_sync_status (mk_connector 7 SLACK ''syncing'') = ''syncing''"
    by (simp_all add: db_empty_def mk_connector_def)
  have b: "connectors ?b 1 = Some (mk_connector 7 SLACK ''failed'')"
          "conn_tenant_id (mk_connector 7 SLACK ''failed'') = 7"
          "conn_sync_status (mk_connector 7 SLACK ''failed'') \<noteq> ''syncing''"
    by (simp_all add: db_empty_def mk_connector_def)
  from start_sync_guard [OF a(1) a(2), of 50] a(3)
  have ra: "start_sync 1 7 50 ?a
              = (Inl (HTTPException 400 ''Sync already in progress''),
                 ?a\<lparr>executed := executed ?a @ [(Select ''connectors'', 1)]\<rparr>)"
    by simp
  from start_sync_guard [OF b(1) b(2), of 50] b(3)
  obtain s' where rb: "snd (start_sync 1 7 50 ?b) = s'"
    "progress_rows s' 1 = Some (started_progress 50)"
    "connectors s' 1 = Some ((mk_connector 7 SLACK ''failed'')\<lparr>conn_sync_status := ''syncing''\<rparr>)"
    by auto
  have "(mk_connector 7 SLACK ''failed'')\<lparr>conn_sync_status := ''syncing''\<rparr>
          = mk_connector 7 SLACK ''syncing''"
    by (simp add: mk_connector_def)
  with ra rb a show ?thesis by (simp add: db_empty_def)
qed

subsection \<open>Polling the progress\<close>

text \<open>
  Claim C10. For a connector of the caller with no SyncProgress row,
  \<^verbatim>\<open>get_sync_progress\<close> returns the idle snapshot, not an error. In every response the
  percent is the rounded quotient when \<open>total_items > 0\<close> and 0 otherwise, and the call
  never raises ZeroDivisionError, whatever the float operations are.
\<close>

theorem get_sync_progress_snapshot:
  "(connectors s connector_id = Some c \<and> conn_tenant_id c = tenant_id
      \<and> progress_rows s connector_id = None \<longrightarrow>
        fst (get_sync_progress fl connector_id tenant_id s)
          = Inr \<lparr>r_status = ''idle'', r_total_items = 0, r_processed_items = 0,
                 r_indexed_items = 0, r_failed_items = 0, r_current_step = None,
                 r_error_message = None, r_percent = 0, r_started_at = None,
                 r_completed_at = None\<rparr>)
   \<and> (\<forall>r. fst (get_sync_progress fl connector_id tenant_id s) = Inr r \<longrightarrow>
          r_percent r =
            (if r_total_items r > 0
             then round_ndigits fl
                    (float_mul fl (truediv fl (r_processed_items r) (r_total_items r)) 100) 1
             else 0))
   \<and> fst (get_sync_progress fl connector_id tenant_id s) \<noteq> Inl ZeroDivisionError"
  by (auto simp: get_sync_progress_def select_connector_def select_progress_def Let_def
        py_truediv_def split: option.splits if_splits sum.splits)


text \<open>No progress row; one item of four processed; no items.\<close>

theorem get_sync_progress_snapshot_witness:
  "fst (get_sync_progress exact_float_ops 1 7
          (db_empty\<lparr>connectors := [1 \<mapsto> mk_connector 7 SLACK ''idle'']\<rparr>))
     = Inr \<lparr>r_status = ''idle'', r_total_items = 0, r_processed_items = 0,
            r_indexed_items = 0, r_failed_items = 0, r_current_step = None,
            r_error_message = None, r_percent = 0, r_started_at = None,
            r_completed_at = None\<rparr>
   \<and> (\<exists>r. fst (get_sync_progress exact_float_ops 1 7
                  (db_empty\<lparr>connectors := [1 \<mapsto> mk_connector 7 SLACK ''syncing''],
                            progress_rows := [1 \<mapsto> mk_progress ''syncing'' 4 1]\<rparr>)) = Inr r
          \<and> r_total_items r = 4 \<and> r_percent r = 25)
   \<and> (\<exists>r. fst (get_sync_progress exact_float_ops 1 7
                  (db_empty\<lparr>connectors := [1 \<mapsto> mk_connector 7 SLACK ''syncing''],
                            progress_rows := [1 \<mapsto> mk_progress ''syncing'' 0 0]\<rparr>)) = Inr r
          \<and> r_total_items r = 0 \<and> r_percent r = 0)"
proof -
  let ?a = "db_empty\<lparr>connectors := [1 \<mapsto> mk_connector 7 SLACK ''idle'']\<rparr>"
  let ?b = "db_empty\<lparr>connectors := [1 \<mapsto> mk_connector 7 SLACK ''syncing''],
                     progress_rows := [1 \<mapsto> mk_progress ''syncing'' 4 1]\<rparr>"
  let ?c = "db_empty\<lparr>connectors := [1 \<mapsto> mk_connector 7 SLACK ''syncing''],
                     progress_rows := [1 \<mapsto> mk_progress ''syncing'' 0 0]\<rparr>"
  have a: "connectors ?a 1 = Some (mk_connector 7 SLACK ''idle'')
           \<and> conn_tenant_id (mk_connector 7 SLACK ''idle'') = 7 \<and> progress_rows ?a 1 = None"
    by (simp add: db_empty_def mk_connector_def)
  have A: "fst (get_sync_progress exact_float_ops 1 7 ?a)
     = Inr \<lparr>r_status = ''idle'', r_total_items = 0, r_processed_items = 0,
            r_indexed_items = 0, r_failed_items = 0, r_current_step = None,
            r_error_message = None, r_percent = 0, r_started_at = None,
            r_completed_at = None\<rparr>"
    using get_sync_progress_snapshot
            [of ?a 1 "mk_connector 7 SLACK ''idle''" 7 exact_float_ops] a
    by blast
  obtain rb where rb: "fst (get_sync_progress exact_float_ops 1 7 ?b) = Inr rb"
      "r_total_items rb = 4" "r_processed_items rb = 1"
    by (simp add: get_sync_progress_def select_connector_def select_progress_def Let_def
          py_truediv_def db_empty_def mk_connector_def mk_progress_def)
  have "r_percent rb =
            (if r_total_items rb > 0
             then round_ndigits exact_float_ops
                    (float_mul exact_float_ops
                       (truediv exact_float_ops (r_processed_items rb) (r_total_items rb)) 100) 1
             else 0)"
    using get_sync_progress_snapshot [of ?b 1 undefined 7 exact_float_ops] rb(1) by blast
  then have B: "r_percent rb = 25"
    using rb(2,3) by (simp add: exact_float_ops_def round_half_even_def)
  obtain rc where rc: "fst (get_sync_progress exact_float_ops 1 7 ?c) = Inr rc"
      "r_total_items rc = 0"
    by (simp add: get_sync_progress_def select_connector_def select_progress_def Let_def
          py_truediv_def db_empty_def mk_connector_def mk_progress_def)
  have "r_percent rc =
            (if r_total_items rc > 0
             then round_ndigits exact_float_ops
                    (float_mul exact_float_ops
                       (truediv exact_float_ops (r_processed_items rc) (r_total_items rc)) 100) 1
             else 0)"
    using get_sync_progress_snapshot [of ?c 1 undefined 7 exact_float_ops] rc(1) by blast
  then have C: "r_percent rc = 0" using rc(2) by simp
  from A rb B rc C show ?thesis by blast
qed

subsection \<open>Chat: empty retrieval\<close>

lemma get_system_prompt_nonempty: "get_system_prompt \<noteq> []"
  by (simp add: get_system_prompt_def)

lemma build_context_empty: "build_context [] = []"
  by (simp add: build_context_def)

text \<open>
  Claim C8. When the vector query of a chat turn returns no document, the context string is
  empty (the system message is the bare system prompt), and once the generation has answered,
  \<^verbatim>\<open>chat\<close> returns normally with an empty source list and has stored the user's message
  and the assistant message, whose \<open>sources\<close> is the empty list.
\<close>

theorem chat_empty_retrieval:
  assumes "search ev user_message (str_nat tenant_id) 5 = Inr []"
    and "chat_completion ev
           ((''system'', get_system_prompt) # fst (chat_history session_id user_message now s))
         = Inr response"
  shows "build_context [] = []
       \<and> generate_response ev (fst (chat_history session_id user_message now s))
            (Some (build_context [])) (Some get_system_prompt) = Inr response
       \<and> (\<exists>s'. chat ev session_id tenant_id user_message now now' s
                 = Inr (\<lparr>res_message = response, res_sources = [],
                         res_message_id = str_nat (Suc (next_uuid s))\<rparr>, s')
              \<and> chat_messages s'
                  = chat_messages s
                    @ [\<lparr>msg_id = next_uuid s, msg_session_id = session_id,
                         msg_role = ''user'', msg_content = user_message,
                         msg_sources = None, msg_created_at = now\<rparr>,
                       \<lparr>msg_id = Suc (next_uuid s), msg_session_id = session_id,
                         msg_role = ''assistant'', msg_content = response,
                         msg_sources = Some [], msg_created_at = now'\<rparr>])"
proof -
  have gen: "generate_response ev (fst (chat_history session_id user_message now s))
            (Some (build_context [])) (Some get_system_prompt) = Inr response"
    using assms(2)
    by (simp add: generate_response_def build_context_empty truthy_def
          get_system_prompt_nonempty Let_def)
  obtain h s2 where h: "chat_history session_id user_message now s = (h, s2)"
    by (cases "chat_history session_id user_message now s")
  have s2: "chat_messages s2 = chat_messages s
                    @ [\<lparr>msg_id = next_uuid s, msg_session_id = session_id,
                         msg_role = ''user'', msg_content = user_message,
                         msg_sources = None, msg_created_at = now\<rparr>]"
    "next_uuid s2 = Suc (next_uuid s)"
    using h by (auto simp: chat_history_def add_message_def get_messages_def Let_def)
  have "chat ev session_id tenant_id user_message now now' s
          = Inr (\<lparr>res_message = response, res_sources = [],
                  res_message_id = str_nat (Suc (next_uuid s))\<rparr>,
                 snd (add_message session_id ''assistant'' response (Some []) now' s2))"
    using assms(1) gen h s2(2)
    by (simp add: chat_def Let_def build_context_empty split_beta add_message_def)
  moreover have "chat_messages (snd (add_message session_id ''assistant'' response (Some []) now' s2))
      = chat_messages s
                    @ [\<lparr>msg_id = next_uuid s, msg_session_id = session_id,
                         msg_role = ''user'', msg_content = user_message,
                         msg_sources = None, msg_created_at = now\<rparr>,
                       \<lparr>msg_id = Suc (next_uuid s), msg_session_id = session_id,
                         msg_role = ''assistant'', msg_content = response,
                         msg_sources = Some [], msg_created_at = now'\<rparr>]"
    using s2 by (simp add: add_message_def Let_def)
  ultimately show ?thesis using gen build_context_empty by blast
qed


text \<open>A first message in a tenant with nothing indexed.\<close>

theorem chat_empty_retrieval_witness:
  "\<exists>s'. chat (sample_env []) 1 7 ''hello'' 10 11 db_empty
           = Inr (\<lparr>res_message = ''hello'', res_sources = [], res_message_id = str_nat 1001\<rparr>, s')
        \<and> map msg_sources (chat_messages s') = [None, Some []]
        \<and> map msg_content (chat_messages s') = [''hello'', ''hello'']"
proof -
  have a: "search (sample_env []) ''hello'' (str_nat 7) 5 = Inr []"
    by (simp add: search_def create_embedding_def sample_env_def)
  have h: "fst (chat_history 1 ''hello'' 10 db_empty) = [(''user'', ''hello'')]"
    by (simp add: chat_history_def add_message_def get_messages_def db_empty_def Let_def)
  have b: "chat_completion (sample_env [])
             ((''system'', get_system_prompt) # fst (chat_history 1 ''hello'' 10 db_empty))
           = Inr ''hello''"
    using h by (simp add: sample_env_def)
  from chat_empty_retrieval [OF a b, of 11]
  show ?thesis by (auto simp: db_empty_def)
qed

subsection \<open>Chat: the history handed to the generation\<close>

text \<open>
  Claim C2 says that the history is the ten most recent messages, the user's new message
  among them. \<^verbatim>\<open>get_messages\<close> sorts ascending and then cuts after ten rows, which keeps
  the ten oldest. In a session that holds ten messages, the message stored at the start of
  the turn is not in the history, and a generation that answers the last message it sees
  answers the tenth old message.
\<close>

theorem chat_history_drops_new_message:
  "fst (chat_history 1 ''question'' 11 (db_empty\<lparr>chat_messages := map old_message [1 ..< 11]\<rparr>))
     = map (\<lambda>i. (''user'', str_nat i)) [1 ..< 11]
   \<and> (''user'', ''question'')
        \<notin> set (fst (chat_history 1 ''question'' 11
                       (db_empty\<lparr>chat_messages := map old_message [1 ..< 11]\<rparr>)))
   \<and> (case chat (sample_env []) 1 7 ''question'' 11 12
              (db_empty\<lparr>chat_messages := map old_message [1 ..< 11]\<rparr>) of
         Inl e \<Rightarrow> False
       | Inr (res, s') \<Rightarrow> res_message res = ''10'')"
  by code_simp


text \<open>
  In general: once a session holds ten messages, none of them younger than the new one, the
  history is what it was before the user's message was stored.
\<close>

lemma insort_key_snoc:
  "f x \<le> f y \<Longrightarrow> insort_key f x (zs @ [y]) = insort_key f x zs @ [y]"
  by (induction zs) simp_all

lemma sort_key_snoc:
  "\<forall>x \<in> set xs. f x \<le> f y \<Longrightarrow> sort_key f (xs @ [y]) = sort_key f xs @ [y]"
  by (induction xs) (simp_all add: insort_key_snoc)

lemma chat_history_ignores_new_message:
  assumes "10 \<le> length (filter (\<lambda>m. msg_session_id m = session_id) (chat_messages s))"
    and "\<forall>m \<in> set (chat_messages s). msg_created_at m \<le> now"
  shows "fst (chat_history session_id user_message now s)
           = map (\<lambda>m. (msg_role m, msg_content m)) (fst (get_messages session_id 10 s))"
proof -
  let ?new = "\<lparr>msg_id = next_uuid s, msg_session_id = session_id, msg_role = ''user'',
               msg_content = user_message, msg_sources = None, msg_created_at = now\<rparr>"
  let ?old = "filter (\<lambda>m. msg_session_id m = session_id) (chat_messages s)"
  have "sort_key msg_created_at (?old @ [?new]) = sort_key msg_created_at ?old @ [?new]"
    using assms(2) by (intro sort_key_snoc) simp
  moreover have "10 \<le> length (sort_key msg_created_at ?old)"
    using assms(1) by simp
  ultimately have "take 10 (sort_key msg_created_at (?old @ [?new]))
                     = take 10 (sort_key msg_created_at ?old)"
    by simp
  then show ?thesis
    by (simp add: chat_history_def add_message_def get_messages_def Let_def)
qed

subsection \<open>Projections of the state after a statement\<close>

lemma find_by_external_ids_state:
  "snd (find_by_external_ids external_ids connector_id s)
     = (if external_ids = [] then s
        else s\<lparr>executed := executed s
                 @ [(Select ''documents'',
                     length (filter (\<lambda>d. (case doc_external_id d of None \<Rightarrow> False
                                              | Some e \<Rightarrow> e \<in> set external_ids)
                                        \<and> doc_connector_id d = Some connector_id)
                               (documents s)))]\<rparr>)"
  by (simp add: find_by_external_ids_def select_documents_def Let_def)

lemma update_progress_proj [simp]:
  "progress_rows (update_progress k f s) k' =
     (if k' = k then map_option f (progress_rows s k) else progress_rows s k')"
  "connectors (update_progress k f s) = connectors s"
  "documents (update_progress k f s) = documents s"
  "executed (update_progress k f s) = executed s"
  "next_uuid (update_progress k f s) = next_uuid s"
  "chat_messages (update_progress k f s) = chat_messages s"
  "chat_sessions (update_progress k f s) = chat_sessions s"
  by (simp_all add: update_progress_def split: option.splits)

lemma update_connector_proj [simp]:
  "connectors (update_connector k f s) k' =
     (if k' = k then map_option f (connectors s k) else connectors s k')"
  "progress_rows (update_connector k f s) = progress_rows s"
  "documents (update_connector k f s) = documents s"
  "executed (update_connector k f s) = executed s"
  "next_uuid (update_connector k f s) = next_uuid s"
  "chat_messages (update_connector k f s) = chat_messages s"
  "chat_sessions (update_connector k f s) = chat_sessions s"
  by (simp_all add: update_connector_def split: option.splits)

lemma select_progress_proj [simp]:
  "fst (select_progress k s) = progress_rows s k"
  "progress_rows (snd (select_progress k s)) = progress_rows s"
  "connectors (snd (select_progress k s)) = connectors s"
  "documents (snd (select_progress k s)) = documents s"
  "next_uuid (snd (select_progress k s)) = next_uuid s"
  "executed (snd (select_progress k s))
     = executed s @ [(Select ''sync_progress'', case progress_rows s k of None \<Rightarrow> 0 | Some _ \<Rightarrow> 1)]"
  by (simp_all add: select_progress_def Let_def)

lemma select_connector_proj [simp]:
  "fst (select_connector k None s) = connectors s k"
  "progress_rows (snd (select_connector k t s)) = progress_rows s"
  "connectors (snd (select_connector k t s)) = connectors s"
  "documents (snd (select_connector k t s)) = documents s"
  "next_uuid (snd (select_connector k t s)) = next_uuid s"
  "executed (snd (select_connector k None s))
     = executed s @ [(Select ''connectors'', case connectors s k of None \<Rightarrow> 0 | Some _ \<Rightarrow> 1)]"
  by (simp_all add: select_connector_def Let_def split: option.splits)

lemma find_by_external_ids_proj [simp]:
  "progress_rows (snd (find_by_external_ids ids k s)) = progress_rows s"
  "connectors (snd (find_by_external_ids ids k s)) = connectors s"
  "documents (snd (find_by_external_ids ids k s)) = documents s"
  "next_uuid (snd (find_by_external_ids ids k s)) = next_uuid s"
  by (simp_all add: find_by_external_ids_state)

lemma find_by_external_ids_executed:
  "executed (snd (find_by_external_ids ids k s))
     = executed s
       @ (if ids = [] then []
          else [(Select ''documents'',
                 length (filter (\<lambda>d. (case doc_external_id d of None \<Rightarrow> False
                                          | Some e \<Rightarrow> e \<in> set ids)
                                    \<and> doc_connector_id d = Some k)
                           (documents s)))])"
  by (simp add: find_by_external_ids_state)

subsection \<open>Deduplication on a second sync\<close>

lemma existing_keys:
  "(foldl (\<lambda>m d. case doc_external_id d of None \<Rightarrow> m | Some e \<Rightarrow> m(e \<mapsto> d)) m0 rows) e \<noteq> None
     \<longleftrightarrow> m0 e \<noteq> None \<or> (\<exists>d \<in> set rows. doc_external_id d = Some e)"
  by (induction rows arbitrary: m0) (auto split: option.splits)

lemma find_by_external_ids_key:
  "fst (find_by_external_ids external_ids connector_id s) e \<noteq> None
     \<longleftrightarrow> e \<in> set external_ids
         \<and> (\<exists>d \<in> set (documents s).
               doc_external_id d = Some e \<and> doc_connector_id d = Some connector_id)"
proof (cases "external_ids = []")
  case True
  then show ?thesis by (simp add: find_by_external_ids_def)
next
  case False
  let ?p = "\<lambda>d. (case doc_external_id d of None \<Rightarrow> False | Some e \<Rightarrow> e \<in> set external_ids)
                 \<and> doc_connector_id d = Some connector_id"
  have "fst (find_by_external_ids external_ids connector_id s)
          = foldl (\<lambda>m d. case doc_external_id d of None \<Rightarrow> m | Some e \<Rightarrow> m(e \<mapsto> d))
              Map.empty (filter ?p (documents s))"
    using False by (simp add: find_by_external_ids_def select_documents_def Let_def)
  then have "fst (find_by_external_ids external_ids connector_id s) e \<noteq> None
          \<longleftrightarrow> (\<exists>d \<in> set (filter ?p (documents s)). doc_external_id d = Some e)"
    by (simp only: existing_keys) simp
  also have "\<dots> \<longleftrightarrow> e \<in> set external_ids
         \<and> (\<exists>d \<in> set (documents s).
               doc_external_id d = Some e \<and> doc_connector_id d = Some connector_id)"
    by auto
  finally show ?thesis .
qed

lemma all_known:
  assumes "\<forall>it \<in> set items. truthy (it_external_id it)"
    and "\<forall>it \<in> set items. \<exists>d \<in> set (documents s).
           doc_connector_id d = Some connector_id \<and> doc_external_id d = it_external_id it"
  shows "select_new_items items
           (fst (find_by_external_ids (external_ids_of items) connector_id s)) = []"
proof -
  have "truthy (it_external_id it)
        \<and> (case it_external_id it of None \<Rightarrow> False
            | Some e \<Rightarrow> fst (find_by_external_ids (external_ids_of items) connector_id s) e \<noteq> None)"
    if it: "it \<in> set items" for it
  proof -
    from assms(1) it have tr: "truthy (it_external_id it)" by blast
    then obtain e where e: "it_external_id it = Some e" by (auto simp: truthy_def split: option.splits)
    from it tr e have "e \<in> set (external_ids_of items)"
      by (force simp: external_ids_of_def)
    moreover from assms(2) it e obtain d where "d \<in> set (documents s)"
      "doc_connector_id d = Some connector_id" "doc_external_id d = Some e" by force
    ultimately have "fst (find_by_external_ids (external_ids_of items) connector_id s) e \<noteq> None"
      unfolding find_by_external_ids_key by blast
    with tr e show ?thesis by simp
  qed
  then show ?thesis
    by (auto simp: select_new_items_def filter_empty_conv)
qed


lemma find_by_external_ids_documents:
  "documents s' = documents s \<Longrightarrow>
     fst (find_by_external_ids ids connector_id s') = fst (find_by_external_ids ids connector_id s)"
  by (simp add: find_by_external_ids_def select_documents_def Let_def)

lemma sync_body_fetched:
  assumes "progress_rows s (task_connector_id task) = Some p"
    and "get_connector_class ev (task_connector_type task) = Inr (Some connector_class)"
    and "connector_class (task_credentials task) = Inr items"
  shows "sync_body ev task now s =
     (case create_and_index ev task now
             (select_new_items items
                (fst (find_by_external_ids (external_ids_of items) (task_connector_id task)
                        (fetched_state (task_connector_id task) items s))))
             (snd (find_by_external_ids (external_ids_of items) (task_connector_id task)
                     (fetched_state (task_connector_id task) items s))) of
        Inl err \<Rightarrow> Inl err
      | Inr s5 \<Rightarrow> mark_complete (task_connector_id task) now s5)"
  using assms
  by (simp add: sync_body_def Let_def split_beta fetched_state_def)

lemma mark_complete_found:
  assumes "connectors s connector_id = Some c"
  shows "mark_complete connector_id now s =
     Inr (update_connector connector_id
            (\<lambda>c. c\<lparr>conn_sync_status := ''completed'', conn_last_sync_at := Some now\<rparr>)
            (snd (select_connector connector_id None
               (update_progress connector_id
                 (\<lambda>p. p\<lparr>sp_status := ''completed'',
                         sp_current_step := Some ''Sync completed'',
                         sp_completed_at := Some now\<rparr>) s))))"
proof -
  let ?s1 = "update_progress connector_id
                 (\<lambda>p. p\<lparr>sp_status := ''completed'',
                         sp_current_step := Some ''Sync completed'',
                         sp_completed_at := Some now\<rparr>) s"
  show ?thesis
    using assms by (simp add: mark_complete_def Let_def split_beta)
qed

text \<open>
  The boundary of "carries an external id": an empty string is falsy, so such an item is new
  on every sync, whatever the table holds.
\<close>

lemma empty_external_id_is_new:
  "select_new_items [it\<lparr>it_external_id := Some []\<rparr>] existing = [it\<lparr>it_external_id := Some []\<rparr>]"
  by (simp add: select_new_items_def truthy_def)

text \<open>
  Claim C1. Take a connector of the caller that is not syncing, whose source answers with
  items that all carry a (non-empty) external id, each of which already has a document of
  this connector. Then \<^verbatim>\<open>start_sync\<close> followed by the background task classifies every
  item as known, leaves the documents table as it was, ends with the progress row completed,
  \<open>total_items\<close> the size of the batch and \<open>processed_items = 0\<close>, sets the connector to
  completed, and looks the external ids up with one statement (none for an empty batch).
\<close>

theorem resync_creates_nothing:
  assumes conn: "connectors s connector_id = Some c" "conn_tenant_id c = tenant_id"
      "conn_sync_status c \<noteq> ''syncing''"
    and cls: "get_connector_class ev (conn_type c) = Inr (Some connector_class)"
    and fetch: "connector_class (conn_credentials c) = Inr items"
    and ext: "\<forall>it \<in> set items. truthy (it_external_id it)"
    and prior: "\<forall>it \<in> set items. \<exists>d \<in> set (documents s).
           doc_connector_id d = Some connector_id \<and> doc_external_id d = it_external_id it"
  shows "\<exists>task s1 s2.
           start_sync connector_id tenant_id now s = (Inr (''Sync started'', task), s1)
         \<and> run_sync_task ev task now' s1 = (None, s2)
         \<and> select_new_items items
             (fst (find_by_external_ids (external_ids_of items) connector_id s)) = []
         \<and> documents s2 = documents s
         \<and> progress_rows s2 connector_id
             = Some (completed_progress now now' (int (length items)))
         \<and> connectors s2 connector_id
             = Some (c\<lparr>conn_sync_status := ''completed'', conn_last_sync_at := Some now'\<rparr>)
         \<and> filter (\<lambda>e. fst e = Select ''documents'')
              (drop (length (executed s)) (executed s2))
             = (if items = [] then []
                else [(Select ''documents'',
                       length (filter (\<lambda>d. (case doc_external_id d of None \<Rightarrow> False
                                                | Some e \<Rightarrow> e \<in> set (external_ids_of items))
                                           \<and> doc_connector_id d = Some connector_id)
                                  (documents s)))])"
proof -
  let ?task = "\<lparr>task_connector_id = connector_id, task_connector_type = conn_type c,
                 task_credentials = conn_credentials c, task_tenant_id = tenant_id\<rparr>"
  obtain s1 where start: "start_sync connector_id tenant_id now s = (Inr (''Sync started'', ?task), s1)"
    and s1: "progress_rows s1 connector_id = Some (started_progress now)"
            "connectors s1 connector_id = Some (c\<lparr>conn_sync_status := ''syncing''\<rparr>)"
            "documents s1 = documents s"
            "executed s1 = executed s @ [(Select ''connectors'', 1),
                 (Select ''sync_progress'', case progress_rows s connector_id of None \<Rightarrow> 0 | Some _ \<Rightarrow> 1)]"
    using conn
    by (simp add: start_sync_def select_connector_def select_progress_def Let_def
          started_progress_def)
  have known: "select_new_items items
             (fst (find_by_external_ids (external_ids_of items) connector_id s)) = []"
    by (rule all_known [OF ext prior])
  have ne: "external_ids_of items = [] \<longleftrightarrow> items = []"
    using ext by (cases items) (auto simp: external_ids_of_def)
  let ?s2 = "snd (run_sync_task ev ?task now' s1)"
  let ?s3 = "fetched_state connector_id items s1"
  let ?s4 = "snd (find_by_external_ids (external_ids_of items) connector_id ?s3)"
  have docs3: "documents ?s3 = documents s"
    using s1(3) by (simp add: fetched_state_def)
  have known3: "select_new_items items
             (fst (find_by_external_ids (external_ids_of items) connector_id ?s3)) = []"
    using known find_by_external_ids_documents [OF docs3] by simp
  have conn4: "connectors ?s4 connector_id = Some (c\<lparr>conn_sync_status := ''syncing''\<rparr>)"
    using s1(2) by (simp add: fetched_state_def)
  have sb: "sync_body ev ?task now' s1 = mark_complete connector_id now' ?s4"
    using sync_body_fetched [of s1 ?task "started_progress now" ev connector_class items now']
          s1(1) cls fetch known3
    by (simp add: create_and_index_def)
  then have rt: "run_sync_task ev ?task now' s1 = (None, ?s2)"
    by (simp add: run_sync_task_def mark_complete_found [OF conn4])
  from sb have run: "?s2 = update_connector connector_id
            (\<lambda>c. c\<lparr>conn_sync_status := ''completed'', conn_last_sync_at := Some now'\<rparr>)
            (snd (select_connector connector_id None
               (update_progress connector_id
                 (\<lambda>p. p\<lparr>sp_status := ''completed'',
                         sp_current_step := Some ''Sync completed'',
                         sp_completed_at := Some now'\<rparr>) ?s4)))"
    by (simp add: run_sync_task_def mark_complete_found [OF conn4])
  have b1: "documents ?s2 = documents s"
    unfolding run using docs3 by simp
  have b2: "progress_rows ?s2 connector_id
             = Some (completed_progress now now' (int (length items)))"
    unfolding run using s1(1)
    by (simp add: fetched_state_def started_progress_def completed_progress_def)
  have b3: "connectors ?s2 connector_id
             = Some (c\<lparr>conn_sync_status := ''completed'', conn_last_sync_at := Some now'\<rparr>)"
    unfolding run using conn4 by simp
  have b4: "executed ?s2 = executed s1 @ [(Select ''sync_progress'', 1)]
             @ (if items = [] then []
                else [(Select ''documents'',
                       length (filter (\<lambda>d. (case doc_external_id d of None \<Rightarrow> False
                                                | Some e \<Rightarrow> e \<in> set (external_ids_of items))
                                           \<and> doc_connector_id d = Some connector_id)
                                  (documents s)))])
             @ [(Select ''connectors'', 1)]"
    unfolding run using s1(1) conn4 docs3 ne
    by (simp add: find_by_external_ids_executed) (simp add: fetched_state_def)
  note body = b1 b2 b3 b4
  have log: "filter (\<lambda>e. fst e = Select ''documents'')
              (drop (length (executed s)) (executed ?s2))
             = (if items = [] then []
                else [(Select ''documents'',
                       length (filter (\<lambda>d. (case doc_external_id d of None \<Rightarrow> False
                                                | Some e \<Rightarrow> e \<in> set (external_ids_of items))
                                           \<and> doc_connector_id d = Some connector_id)
                                  (documents s)))])"
    using body s1(4) by simp
  from start rt known body log show ?thesis by blast
qed


text \<open>Two items, both persisted by an earlier sync.\<close>

theorem resync_creates_nothing_witness:
  "\<exists>task s1.
     start_sync 1 7 50
       (db_empty\<lparr>connectors := [1 \<mapsto> mk_connector 7 SLACK ''completed''],
                 documents := [synced_doc 10 ''a'', synced_doc 11 ''b'']\<rparr>)
       = (Inr (''Sync started'', task), s1)
   \<and> fst (run_sync_task (sample_env [mk_item ''a'', mk_item ''b'']) task 60 s1) = None
   \<and> documents (snd (run_sync_task (sample_env [mk_item ''a'', mk_item ''b'']) task 60 s1))
       = [synced_doc 10 ''a'', synced_doc 11 ''b'']
   \<and> progress_rows
         (snd (run_sync_task (sample_env [mk_item ''a'', mk_item ''b'']) task 60 s1)) 1
       = Some (completed_progress 50 60 2)"
proof -
  let ?s = "db_empty\<lparr>connectors := [1 \<mapsto> mk_connector 7 SLACK ''completed''],
                 documents := [synced_doc 10 ''a'', synced_doc 11 ''b'']\<rparr>"
  let ?items = "[mk_item ''a'', mk_item ''b'']"
  have c: "connectors ?s 1 = Some (mk_connector 7 SLACK ''completed'')"
          "conn_tenant_id (mk_connector 7 SLACK ''completed'') = 7"
          "conn_sync_status (mk_connector 7 SLACK ''completed'') \<noteq> ''syncing''"
    by (simp_all add: db_empty_def mk_connector_def)
  have cls: "get_connector_class (sample_env ?items) (conn_type (mk_connector 7 SLACK ''completed''))
               = Inr (Some (\<lambda>credentials. Inr ?items))"
    by (simp add: get_connector_class_def sample_env_def mk_connector_def)
  have fetch: "(\<lambda>credentials. Inr ?items) (conn_credentials (mk_connector 7 SLACK ''completed''))
                 = (Inr ?items :: exn + item list)"
    by simp
  have ext: "\<forall>it \<in> set ?items. truthy (it_external_id it)"
    by (simp add: mk_item_def truthy_def)
  have prior: "\<forall>it \<in> set ?items. \<exists>d \<in> set (documents ?s).
           doc_connector_id d = Some 1 \<and> doc_external_id d = it_external_id it"
    by (simp add: mk_item_def synced_doc_def db_empty_def)
  from resync_creates_nothing [OF c cls fetch ext prior, of 50 60]
  show ?thesis by (auto simp: db_empty_def)
qed


text \<open>
  What the hypothesis of C1 rests on: a sync that completes leaves, for every item with an
  external id, a document of the connector with that id.
\<close>

lemma new_documents_keys:
  "new_documents ev tenant_id now n inputs = Inr docs \<Longrightarrow> inp \<in> set inputs \<Longrightarrow>
     \<exists>d \<in> set docs.
        doc_connector_id d = in_connector_id inp \<and> doc_external_id d = in_external_id inp"
proof (induction inputs arbitrary: n docs)
  case Nil
  then show ?case by simp
next
  case (Cons x rest)
  from Cons.prems(1) obtain d ds where
    row: "new_row ev tenant_id now n x = Inr d"
    and rest: "new_documents ev tenant_id now (Suc n) rest = Inr ds"
    and docs: "docs = d # ds"
    by (auto split: sum.splits)
  from row have keys: "doc_connector_id d = in_connector_id x"
    "doc_external_id d = in_external_id x"
    by (auto simp: new_row_def split: option.splits if_splits)
  show ?case
  proof (cases "inp = x")
    case True
    with keys docs show ?thesis by simp
  next
    case False
    with Cons.prems(2) have "inp \<in> set rest" by simp
    from Cons.IH [OF rest this] docs show ?thesis by auto
  qed
qed

lemma create_and_index_documents:
  assumes "create_and_index ev task now new_items s = Inr s'"
  shows "\<exists>docs. new_documents ev (task_tenant_id task) now (next_uuid s)
                  (map (document_input_of (task_connector_id task)) new_items) = Inr docs
            \<and> documents s' = documents s @ docs"
proof (cases "new_items = []")
  case True
  with assms show ?thesis by (simp add: create_and_index_def)
next
  case False
  with assms show ?thesis
    by (auto simp: create_and_index_def create_documents_bulk_def Let_def
             split: sum.splits)
qed

lemma mark_complete_documents:
  "mark_complete connector_id now s = Inr s' \<Longrightarrow> documents s' = documents s"
  by (auto simp: mark_complete_def Let_def split_beta split: option.splits)

lemma sync_persists_items:
  assumes p: "progress_rows s (task_connector_id task) = Some p"
    and cls: "get_connector_class ev (task_connector_type task) = Inr (Some connector_class)"
    and fetch: "connector_class (task_credentials task) = Inr items"
    and ok: "sync_body ev task now s = Inr s'"
    and it: "it \<in> set items" "truthy (it_external_id it)"
  shows "\<exists>d \<in> set (documents s').
           doc_connector_id d = Some (task_connector_id task)
           \<and> doc_external_id d = it_external_id it"
proof -
  let ?cid = "task_connector_id task"
  let ?s3 = "fetched_state ?cid items s"
  let ?existing = "fst (find_by_external_ids (external_ids_of items) ?cid ?s3)"
  let ?s4 = "snd (find_by_external_ids (external_ids_of items) ?cid ?s3)"
  let ?new = "select_new_items items ?existing"
  from ok sync_body_fetched [OF p cls fetch, of now]
  obtain s5 where ci: "create_and_index ev task now ?new ?s4 = Inr s5"
    and mc: "mark_complete ?cid now s5 = Inr s'"
    by (auto split: sum.splits)
  from create_and_index_documents [OF ci] mark_complete_documents [OF mc]
  obtain created where
    created: "new_documents ev (task_tenant_id task) now (next_uuid ?s4)
                (map (document_input_of ?cid) ?new) = Inr created"
    and docs: "documents s' = documents s @ created"
    by (auto simp: fetched_state_def)
  from it(2) obtain e where e: "it_external_id it = Some e"
    by (auto simp: truthy_def split: option.splits)
  show ?thesis
  proof (cases "?existing e = None")
    case True
    with it e have "it \<in> set ?new" by (simp add: select_new_items_def)
    then have "document_input_of ?cid it \<in> set (map (document_input_of ?cid) ?new)" by simp
    from new_documents_keys [OF created this]
    show ?thesis unfolding docs by (auto simp: document_input_of_def)
  next
    case False
    then obtain d where "d \<in> set (documents ?s3)" "doc_external_id d = Some e"
      "doc_connector_id d = Some ?cid"
      unfolding find_by_external_ids_key by blast
    then show ?thesis unfolding docs using e by (auto simp: fetched_state_def)
  qed
qed

text \<open>
  The end-to-end scenario: three new items are persisted and indexed by the first sync; the
  second sync of the same items creates nothing.
\<close>

lemma end_to_end_example:
  "(let ev = sample_env [mk_item ''a'', mk_item ''b'', mk_item ''c''];
        s0 = db_empty\<lparr>connectors := [1 \<mapsto> mk_connector 7 SLACK ''idle'']\<rparr>;
        run = (\<lambda>now s. case start_sync 1 7 now s of
                         (Inl e, s1) \<Rightarrow> s1
                       | (Inr (m, task), s1) \<Rightarrow> snd (run_sync_task ev task (Suc now) s1));
        s1 = run 50 s0;
        s2 = run 60 s1
    in map_option (\<lambda>p. (sp_status p, sp_total_items p, sp_processed_items p,
                         sp_indexed_items p)) (progress_rows s1 1)
         = Some (''completed'', 3, 3, 3)
     \<and> map doc_external_id (documents s1) = [Some ''a'', Some ''b'', Some ''c'']
     \<and> map_option (\<lambda>p. (sp_status p, sp_total_items p, sp_processed_items p,
                         sp_indexed_items p)) (progress_rows s2 1)
         = Some (''completed'', 3, 0, 0)
     \<and> map doc_id (documents s2) = map doc_id (documents s1)
     \<and> map_option conn_sync_status (connectors s2 1) = Some ''completed'')"
  by code_simp

subsection \<open>Failure of the background task\<close>

text \<open>
  A raise inside the \<^verbatim>\<open>try\<close> block leaves the connectors as they were and neither adds
  nor removes a progress row.
\<close>

lemma create_and_index_frame:
  assumes "create_and_index ev task now new_items s = Inl (e, session, s')"
  shows "connectors s' = connectors s
       \<and> (\<forall>k. progress_rows s' k = None \<longleftrightarrow> progress_rows s k = None)"
  using assms
  by (auto simp: create_and_index_def create_documents_bulk_def Let_def
           split: if_splits sum.splits)

lemma create_and_index_frame_ok:
  assumes "create_and_index ev task now new_items s = Inr s'"
  shows "connectors s' = connectors s
       \<and> (\<forall>k. progress_rows s' k = None \<longleftrightarrow> progress_rows s k = None)"
  using assms
  by (auto simp: create_and_index_def create_documents_bulk_def Let_def
           split: if_splits sum.splits)

lemma mark_complete_frame:
  assumes "mark_complete connector_id now s = Inl (e, session, s')"
  shows "connectors s' = connectors s
       \<and> (\<forall>k. progress_rows s' k = None \<longleftrightarrow> progress_rows s k = None)
       \<and> session = Active"
  using assms
  by (auto simp: mark_complete_def Let_def split_beta split: option.splits if_splits)

lemma sync_body_frame:
  assumes "sync_body ev task now s = Inl (e, session, s')"
  shows "connectors s' = connectors s
       \<and> (\<forall>k. progress_rows s' k = None \<longleftrightarrow> progress_rows s k = None)"
proof (cases "progress_rows s (task_connector_id task)")
  case None
  with assms show ?thesis
    by (auto simp: sync_body_def Let_def split_beta split: if_splits)
next
  case (Some p)
  show ?thesis
  proof (cases "get_connector_class ev (task_connector_type task)")
    case (Inl x)
    with assms Some show ?thesis
      by (auto simp: sync_body_def Let_def split_beta split: if_splits)
  next
    case (Inr cls)
    show ?thesis
    proof (cases cls)
      case None
      with assms Some Inr show ?thesis
        by (auto simp: sync_body_def Let_def split_beta split: if_splits)
    next
      case cc: (Some connector_class)
      show ?thesis
      proof (cases "connector_class (task_credentials task)")
        case (Inl x)
        with assms Some Inr cc show ?thesis
          by (auto simp: sync_body_def Let_def split_beta split: if_splits)
      next
        case fetched: (Inr items)
        let ?cid = "task_connector_id task"
        let ?r = "find_by_external_ids (external_ids_of items) ?cid (fetched_state ?cid items s)"
        from Inr cc have cls': "get_connector_class ev (task_connector_type task)
                                  = Inr (Some connector_class)" by simp
        note unf = sync_body_fetched [OF Some cls' fetched, of now]
        have base: "connectors (snd ?r) = connectors s
          \<and> (\<forall>k. progress_rows (snd ?r) k = None \<longleftrightarrow> progress_rows s k = None)"
          by (simp add: fetched_state_def)
        show ?thesis
        proof (cases "create_and_index ev task now (select_new_items items (fst ?r)) (snd ?r)")
          case (Inl err)
          with assms unf have "create_and_index ev task now (select_new_items items (fst ?r)) (snd ?r)
                                 = Inl (e, session, s')" by simp
          from create_and_index_frame [OF this] base show ?thesis by simp
        next
          case (Inr s5)
          with assms unf have "mark_complete ?cid now s5 = Inl (e, session, s')" by simp
          from mark_complete_frame [OF this] create_and_index_frame_ok [OF Inr] base
          show ?thesis by simp
        qed
      qed
    qed
  qed
qed

lemma handle_sync_error_effect:
  "fst (handle_sync_error connector_id e now Active s) = None"
  "progress_rows (snd (handle_sync_error connector_id e now Active s)) k =
     (if k = connector_id
      then map_option (\<lambda>p. p\<lparr>sp_status := ''failed'', sp_error_message := Some (str_exn e),
                              sp_completed_at := Some now\<rparr>) (progress_rows s connector_id)
      else progress_rows s k)"
  "connectors (snd (handle_sync_error connector_id e now Active s)) k =
     (if k = connector_id
      then map_option (\<lambda>c. c\<lparr>conn_sync_status := ''failed'',
                              conn_sync_error := Some (str_exn e)\<rparr>) (connectors s connector_id)
      else connectors s k)"
  "documents (snd (handle_sync_error connector_id e now Active s)) = documents s"
  by (auto simp: handle_sync_error_def Let_def split_beta split: option.splits)

text \<open>
  Where the claim holds: a raise that leaves the session usable (the source, the embedding
  or the index fails, a row is missing). The task returns normally and the failure is
  recorded on the rows of the connector, which exist for every task that \<^verbatim>\<open>start_sync\<close>
  has scheduled.
\<close>

lemma run_sync_task_failure_recorded:
  assumes "sync_body ev task now s = Inl (e, Active, s1)"
  shows "fst (run_sync_task ev task now s) = None
       \<and> (progress_rows s (task_connector_id task) \<noteq> None \<longrightarrow>
            (\<exists>p. progress_rows (snd (run_sync_task ev task now s)) (task_connector_id task)
                   = Some p
                \<and> sp_status p = ''failed''
                \<and> sp_error_message p = Some (str_exn e)
                \<and> sp_completed_at p = Some now))
       \<and> (\<forall>c. connectors s (task_connector_id task) = Some c \<longrightarrow>
            connectors (snd (run_sync_task ev task now s)) (task_connector_id task)
              = Some (c\<lparr>conn_sync_status := ''failed'', conn_sync_error := Some (str_exn e)\<rparr>))
       \<and> documents (snd (run_sync_task ev task now s)) = documents s1"
proof -
  have run: "run_sync_task ev task now s
               = handle_sync_error (task_connector_id task) e now Active s1"
    using assms by (simp add: run_sync_task_def)
  from sync_body_frame [OF assms]
  have fr: "connectors s1 = connectors s"
    "progress_rows s1 (task_connector_id task) = None
       \<longleftrightarrow> progress_rows s (task_connector_id task) = None"
    by simp_all
  show ?thesis
    unfolding run handle_sync_error_effect
    using fr by (cases "progress_rows s1 (task_connector_id task)") auto
qed

text \<open>The source raises "rate limited": both rows end failed with that message.\<close>

lemma run_sync_task_failure_recorded_example:
  "fst (run_sync_task (failing_env ''rate limited'') sync_task_1 60
          (db_empty\<lparr>connectors := [1 \<mapsto> mk_connector 7 SLACK ''syncing''],
                    progress_rows := [1 \<mapsto> started_progress 50]\<rparr>)) = None
   \<and> map_option (\<lambda>p. (sp_status p, sp_error_message p, sp_completed_at p))
     (progress_rows
        (snd (run_sync_task (failing_env ''rate limited'') sync_task_1 60
           (db_empty\<lparr>connectors := [1 \<mapsto> mk_connector 7 SLACK ''syncing''],
                     progress_rows := [1 \<mapsto> started_progress 50]\<rparr>))) 1)
     = Some (''failed'', Some ''rate limited'', Some 60)
   \<and> connectors
        (snd (run_sync_task (failing_env ''rate limited'') sync_task_1 60
           (db_empty\<lparr>connectors := [1 \<mapsto> mk_connector 7 SLACK ''syncing''],
                     progress_rows := [1 \<mapsto> started_progress 50]\<rparr>))) 1
     = Some ((mk_connector 7 SLACK ''syncing'')
               \<lparr>conn_sync_status := ''failed'', conn_sync_error := Some ''rate limited''\<rparr>)"
proof -
  let ?s = "db_empty\<lparr>connectors := [1 \<mapsto> mk_connector 7 SLACK ''syncing''],
                     progress_rows := [1 \<mapsto> started_progress 50]\<rparr>"
  let ?ev = "failing_env ''rate limited''"
  have rows: "progress_rows ?s (task_connector_id sync_task_1) = Some (started_progress 50)"
    "connectors ?s (task_connector_id sync_task_1) = Some (mk_connector 7 SLACK ''syncing'')"
    by (simp_all add: db_empty_def sync_task_1_def)
  have cls: "get_connector_class ?ev (task_connector_type sync_task_1)
               = Inr (Some (\<lambda>credentials. Inl (Exception ''rate limited'')))"
    by (simp add: get_connector_class_def failing_env_def sample_env_def sync_task_1_def)
  obtain s1 where raised:
    "sync_body ?ev sync_task_1 60 ?s = Inl (Exception ''rate limited'', Active, s1)"
    using rows(1) cls by (simp add: sync_body_def Let_def split_beta)
  from run_sync_task_failure_recorded [OF raised] rows
  obtain p where
    "fst (run_sync_task ?ev sync_task_1 60 ?s) = None"
    "progress_rows (snd (run_sync_task ?ev sync_task_1 60 ?s)) (task_connector_id sync_task_1)
       = Some p"
    "sp_status p = ''failed''" "sp_error_message p = Some ''rate limited''"
    "sp_completed_at p = Some 60"
    and "connectors (snd (run_sync_task ?ev sync_task_1 60 ?s)) (task_connector_id sync_task_1)
           = Some ((mk_connector 7 SLACK ''syncing'')
               \<lparr>conn_sync_status := ''failed'', conn_sync_error := Some ''rate limited''\<rparr>)"
    by auto
  then show ?thesis by (simp add: sync_task_1_def)
qed

text \<open>
  Where it fails: the flush of \<^verbatim>\<open>create_documents_bulk\<close> raises. The handler does not
  roll the session back, so its first statement raises in turn; the exception leaves the
  task and the state is the one at the flush.
\<close>

lemma run_sync_task_after_failed_flush:
  assumes "sync_body ev task now s = Inl (e, PendingRollback, s1)"
  shows "run_sync_task ev task now s
           = (Some (PendingRollbackError (pending_rollback_message e)), s1)"
  using assms by (simp add: run_sync_task_def handle_sync_error_def)

text \<open>
  Claim C3 fails on the code at a source item that the documents table refuses. A connector
  is started and its source returns one item whose title has 501 characters (the column
  takes 500), or whose title is \<^verbatim>\<open>None\<close>. The flush raises, the handler raises
  PendingRollbackError on the same session, and this exception leaves the background task.
  No failure is recorded: the progress row keeps status syncing with no error message and
  no completion time, and the connector keeps \<open>sync_status\<close> syncing with no error, so that
  \<^verbatim>\<open>start_sync\<close> refuses every later sync of this connector.
\<close>

theorem run_sync_task_flush_failure:
  "(case start_sync 1 7 50 (db_empty\<lparr>connectors := [1 \<mapsto> mk_connector 7 SLACK ''idle'']\<rparr>) of
      (Inl e, s1) \<Rightarrow> False
    | (Inr (m, task), s1) \<Rightarrow>
        (case run_sync_task (sample_env [long_title_item]) task 60 s1 of
           (escaped, s2) \<Rightarrow>
             escaped = Some (PendingRollbackError (pending_rollback_message
                               (DataError ''value too long for type character varying'')))
             \<and> map_option (\<lambda>p. (sp_status p, sp_error_message p, sp_completed_at p))
                  (progress_rows s2 1) = Some (''syncing'', None, None)
             \<and> map_option (\<lambda>c. (conn_sync_status c, conn_sync_error c)) (connectors s2 1)
                  = Some (''syncing'', None)
             \<and> map doc_id (documents s2) = []
             \<and> fst (start_sync 1 7 70 s2) = Inl (HTTPException 400 ''Sync already in progress''))
        \<and> (case run_sync_task (sample_env [null_title_item]) task 60 s1 of
           (escaped, s2) \<Rightarrow>
             escaped = Some (PendingRollbackError (pending_rollback_message
                        (IntegrityError
                           ''null value in column title violates not-null constraint'')))
             \<and> map_option (\<lambda>p. (sp_status p, sp_error_message p, sp_completed_at p))
                  (progress_rows s2 1) = Some (''syncing'', None, None)
             \<and> map_option (\<lambda>c. (conn_sync_status c, conn_sync_error c)) (connectors s2 1)
                  = Some (''syncing'', None)
             \<and> map doc_id (documents s2) = []))"
  by code_simp

end
